theory Spec2Isabelle
  imports Main "HOL-Library.Word"
begin

unbundle bit_operations_syntax

section \<open>Values shared by the transport and the receiver\<close>

type_synonym byte = "8 word"
type_synonym bytes = "byte list"

text \<open>
  A JavaScript exception value: the constructor that made it and what it carries.
  \<open>Error\<close>, \<open>TypeError\<close>, \<open>ReferenceError\<close> and \<open>RangeError\<close> carry their message;
  \<open>KeyError\<close> is an \<open>Error\<close> of the session layer that carries an
  \<open>identityKey\<close> besides its message; \<open>IncomingIdentityKeyError\<close> carries the
  address (name and device id), the ciphertext and the identity key, if there was one.
\<close>

datatype error =
    Error string
  | TypeError string
  | ReferenceError string
  | RangeError string
  | KeyError string bytes
  | IncomingIdentityKeyError "string \<times> nat" bytes "bytes option"

section \<open>MessageReceiver.unpad\<close>

text \<open>
  \<open>unpad_loop p n\<close> is the \<open>for\<close> loop of \<open>unpad\<close> with \<open>i = n - 1\<close>: it reads
  \<open>paddedPlaintext[i]\<close>, returns the first \<open>i\<close> bytes at a \<open>0x80\<close>, throws at any other
  non-zero byte and goes on to \<open>i - 1\<close> at a zero byte. When \<open>i\<close> drops below zero the
  loop ends with \<open>plaintext\<close> never assigned: the function returns \<open>undefined\<close>,
  which is \<open>None\<close> here.
\<close>

fun unpad_loop :: "bytes \<Rightarrow> nat \<Rightarrow> error + bytes option" where
  "unpad_loop paddedPlaintext 0 = Inr None"
| "unpad_loop paddedPlaintext (Suc i) =
     (if paddedPlaintext ! i = 0x80 then Inr (Some (take i paddedPlaintext))
      else if paddedPlaintext ! i \<noteq> 0x00 then Inl (Error ''Invalid padding'')
      else unpad_loop paddedPlaintext i)"

definition unpad :: "bytes \<Rightarrow> error + bytes option" where
  "unpad paddedPlaintext = unpad_loop paddedPlaintext (length paddedPlaintext)"

section \<open>Request ids\<close>

text \<open>
  \<open>crypto.randomBytes(n)\<close> is Node's; it is taken as the first \<open>n\<close> bytes of an
  entropy source, which is a parameter of the model.
\<close>

type_synonym entropy = "nat \<Rightarrow> byte"

definition randomBytes :: "entropy \<Rightarrow> nat \<Rightarrow> bytes" where
  "randomBytes src n = map src [0..<n]"

text \<open>
  \<open>TypedArray.prototype.set\<close> on a \<open>Uint32Array\<close>: element \<open>k\<close> of the source
  becomes element \<open>k\<close> of the target, converted to an unsigned 32-bit number; a source
  longer than the target is a \<open>RangeError\<close>.
\<close>

definition Uint32Array_set :: "32 word list \<Rightarrow> bytes \<Rightarrow> error + 32 word list" where
  "Uint32Array_set ints src =
     (if length ints < length src then Inl (RangeError ''offset is out of bounds'')
      else Inr (map ucast src @ drop (length src) ints))"

text \<open>\<open>new Long(low, high, true)\<close>: the unsigned 64-bit value of two 32-bit halves.\<close>

definition Long :: "32 word \<Rightarrow> 32 word \<Rightarrow> 64 word" where
  "Long low high = push_bit 32 (ucast high) OR ucast low"

text \<open>
  The branch \<open>if (!this.id)\<close> of the \<open>Request\<close> constructor:
  \<open>ints = new Uint32Array(2); ints.set(crypto.randomBytes(ints.length))\<close> and
  \<open>new Long(ints[0], ints[1], true)\<close>.
\<close>

definition fresh_id :: "entropy \<Rightarrow> error + 64 word" where
  "fresh_id src =
     (let ints = replicate 2 (0 :: 32 word) in
      case Uint32Array_set ints (randomBytes src (length ints)) of
        Inl e \<Rightarrow> Inl e
      | Inr ints' \<Rightarrow> Inr (Long (ints' ! 0) (ints' ! 1)))"

section \<open>Request and its two subclasses\<close>

text \<open>
  The \<open>options\<close> object of the \<open>Request\<close> constructor; an absent property is
  \<open>None\<close>. A callback is either \<open>keepalive.reset\<close> bound to the keep-alive object
  or a function of the caller, named by a number.
\<close>

datatype callback = KeepAlive_reset | Function nat

record options =
  opt_verb :: "string option"
  opt_type :: "string option"
  opt_path :: "string option"
  opt_url :: "string option"
  opt_body :: "bytes option"
  opt_data :: "bytes option"
  opt_success :: "callback option"
  opt_error :: "callback option"
  opt_id :: "64 word option"

record request =
  verb :: "string option"
  path :: "string option"
  body :: "bytes option"
  success :: "callback option"
  error :: "callback option"
  req_id :: "64 word"

text \<open>\<open>a || b\<close> on strings: the empty string is falsy, as \<open>undefined\<close> is.\<close>

definition or_string :: "string option \<Rightarrow> string option \<Rightarrow> string option" where
  "or_string a b = (case a of None \<Rightarrow> b | Some s \<Rightarrow> if s = [] then b else Some s)"

text \<open>\<open>a || b\<close> on buffers: every object is truthy.\<close>

definition or_bytes :: "bytes option \<Rightarrow> bytes option \<Rightarrow> bytes option" where
  "or_bytes a b = (case a of None \<Rightarrow> b | Some x \<Rightarrow> Some x)"

text \<open>
  The constructor. An id given in the options is a \<open>Long\<close> object, which is truthy, so
  it is kept; without one the id is drawn. A body left \<open>undefined\<close> becomes \<open>null\<close>:
  both are \<open>None\<close>.
\<close>

definition Request :: "entropy \<Rightarrow> options \<Rightarrow> error + request" where
  "Request rnd opts =
     (case (case opt_id opts of Some i \<Rightarrow> Inr i | None \<Rightarrow> fresh_id rnd) of
        Inl e \<Rightarrow> Inl e
      | Inr i \<Rightarrow> Inr \<lparr> verb = or_string (opt_verb opts) (opt_type opts),
                      path = or_string (opt_path opts) (opt_url opts),
                      body = or_bytes (opt_body opts) (opt_data opts),
                      success = opt_success opts,
                      error = opt_error opts,
                      req_id = i \<rparr>)"

text \<open>
  A \<open>WebSocketMessage\<close> as \<open>toObject\<close> gives it: a request, a response, or a message
  of some other type value.
\<close>

datatype wsmessage =
    REQUEST "string option" "string option" "bytes option" "64 word"
  | RESPONSE "64 word" nat string
  | OTHER nat

section \<open>WebSocketResource\<close>

datatype readyState = CONNECTING | OPEN | CLOSING | CLOSED

text \<open>What the resource did to a socket: \<open>socket.send(frame)\<close> or \<open>socket.close(code, reason)\<close>.\<close>

datatype wire = Sent wsmessage | SocketClosed nat "string option"

text \<open>
  The state of a \<open>WebSocketResource\<close>: \<open>socket\<close> is \<open>None\<close> for \<open>null\<close> and the
  ready state of the socket otherwise; \<open>outgoingRequests\<close> is the \<open>Map\<close> keyed by
  \<open>id.toNumber()\<close>; \<open>wire\<close> logs what was done to sockets, \<open>calls\<close> which functions
  of the caller ran, with the message and the status they were given.
\<close>

record resource =
  socket :: "readyState option"
  outgoingRequests :: "nat \<rightharpoonup> request"
  wire :: "wire list"
  calls :: "(nat \<times> string \<times> nat) list"

text \<open>
  \<open>this.wsr.socket.send(frame)\<close>: a \<open>TypeError\<close> on the \<open>null\<close> socket. The socket
  library is not part of the sources; its \<open>send\<close> is taken to throw unless the socket is
  open.
\<close>

definition socket_send :: "wsmessage \<Rightarrow> resource \<Rightarrow> error + resource" where
  "socket_send m r =
     (case socket r of
        None \<Rightarrow> Inl (TypeError ''Cannot read property send of null'')
      | Some st \<Rightarrow> if st = OPEN then Inr (r\<lparr>wire := wire r @ [Sent m]\<rparr>)
                   else Inl (Error ''not opened''))"

text \<open>\<open>IncomingWebSocketRequest.respond\<close> and \<open>OutgoingWebSocketRequest.send\<close>.\<close>

definition respond :: "request \<Rightarrow> nat \<Rightarrow> string \<Rightarrow> resource \<Rightarrow> error + resource" where
  "respond req status message r = socket_send (RESPONSE (req_id req) status message) r"

definition send :: "request \<Rightarrow> resource \<Rightarrow> error + resource" where
  "send req r = socket_send (REQUEST (verb req) (path req) (body req) (req_id req)) r"

text \<open>
  \<open>close(code, reason)\<close>: a missing or zero code becomes 3000; the socket is closed
  unless it is \<open>null\<close> or already closed; then the resource forgets it.
\<close>

definition close :: "nat option \<Rightarrow> string option \<Rightarrow> resource \<Rightarrow> resource" where
  "close code reason r =
     (let r' = (case socket r of
                  None \<Rightarrow> r
                | Some st \<Rightarrow>
                    if st \<noteq> CLOSED
                    then r\<lparr>wire := wire r @
                           [SocketClosed (case code of None \<Rightarrow> 3000
                                          | Some c \<Rightarrow> if c = 0 then 3000 else c) reason]\<rparr>
                    else r)
      in r'\<lparr>socket := None\<rparr>)"

definition connect :: "resource \<Rightarrow> resource" where
  "connect r = (close None None r)\<lparr>socket := Some CONNECTING\<rparr>"

text \<open>
  \<open>Long.toNumber\<close> of an unsigned id is the double \<open>high * 2 ^ 32 + low\<close>. A
  double has 53 significant bits: below \<open>2 ^ 53\<close> the sum is exact, from there on it
  is rounded to the nearest number with 53 significant bits, a tie going to the even
  one. \<open>excess_bits n\<close> is the number of bits of \<open>n\<close> beyond 53.
\<close>

fun excess_bits :: "nat \<Rightarrow> nat" where
  "excess_bits n = (if n < 2 ^ 53 then 0 else Suc (excess_bits (n div 2)))"

declare excess_bits.simps [simp del]

definition round_double :: "nat \<Rightarrow> nat" where
  "round_double n =
     (let e = excess_bits n; q = n div 2 ^ e; r = n mod 2 ^ e
      in if 2 * r < 2 ^ e then q * 2 ^ e
         else if 2 ^ e < 2 * r then (q + 1) * 2 ^ e
         else if even q then q * 2 ^ e
         else (q + 1) * 2 ^ e)"

definition toNumber :: "64 word \<Rightarrow> nat" where
  "toNumber i = round_double (unat i)"

text \<open>
  \<open>sendRequest(options)\<close>: the request is stored in the table before it is sent, so it
  stays there when \<open>send\<close> throws.
\<close>

definition sendRequest :: "entropy \<Rightarrow> options \<Rightarrow> resource \<Rightarrow> (error + request) \<times> resource" where
  "sendRequest rnd opts r =
     (case Request rnd opts of
        Inl e \<Rightarrow> (Inl e, r)
      | Inr req \<Rightarrow>
          (let r' = r\<lparr>outgoingRequests := (outgoingRequests r)(toNumber (req_id req) \<mapsto> req)\<rparr>
           in case send req r' of
                Inl e \<Rightarrow> (Inl e, r')
              | Inr r'' \<Rightarrow> (Inr req, r'')))"

section \<open>KeepAlive\<close>

text \<open>
  The two timers are the deadlines, in milliseconds of a virtual clock, of the pending
  \<open>setTimeout\<close> calls; \<open>None\<close> is a timer that was never set, was cleared or has fired.
\<close>

record keepalive =
  ka_path :: string
  disconnect :: bool
  keepAliveTimer :: "nat option"
  disconnectTimer :: "nat option"

definition KeepAlive :: "string option \<Rightarrow> bool option \<Rightarrow> keepalive" where
  "KeepAlive p d =
     \<lparr> ka_path = (case p of None \<Rightarrow> ''/'' | Some x \<Rightarrow> x),
       disconnect = (case d of None \<Rightarrow> True | Some b \<Rightarrow> b),
       keepAliveTimer = None, disconnectTimer = None \<rparr>"

text \<open>
  A resource with its keep-alive (if \<open>opts.keepalive\<close> was given), the virtual clock,
  and the random source: the \<open>k\<close>-th call of \<open>crypto.randomBytes\<close> reads \<open>random k\<close>.
\<close>

record wsr =
  res :: resource
  ka :: "keepalive option"
  now :: nat
  random :: "nat \<Rightarrow> entropy"
  draws :: nat

definition stop :: "wsr \<Rightarrow> wsr" where
  "stop s = s\<lparr>ka := map_option (\<lambda>k. k\<lparr>keepAliveTimer := None, disconnectTimer := None\<rparr>) (ka s)\<rparr>"

text \<open>
  \<open>reset\<close> clears both timers and sets the ping timer 50000 ms ahead. What the ping
  timer runs is \<open>keepAliveTimer_fired\<close>; what the disconnect timer runs is
  \<open>disconnectTimer_fired\<close>.
\<close>

definition reset :: "wsr \<Rightarrow> wsr" where
  "reset s = s\<lparr>ka := map_option
     (\<lambda>k. k\<lparr>keepAliveTimer := Some (now s + 50000), disconnectTimer := None\<rparr>) (ka s)\<rparr>"

definition wsr_sendRequest :: "options \<Rightarrow> wsr \<Rightarrow> (error + request) \<times> wsr" where
  "wsr_sendRequest opts s =
     (case sendRequest (random s (draws s)) opts (res s) of
        (out, r') \<Rightarrow> (out, s\<lparr>res := r', draws := Suc (draws s)\<rparr>))"

definition ping_options :: "keepalive \<Rightarrow> options" where
  "ping_options k =
     \<lparr> opt_verb = Some ''GET'', opt_type = None, opt_path = Some (ka_path k), opt_url = None,
       opt_body = None, opt_data = None, opt_success = Some KeepAlive_reset,
       opt_error = None, opt_id = None \<rparr>"

definition keepAliveTimer_fired :: "wsr \<Rightarrow> wsr" where
  "keepAliveTimer_fired s =
     (case ka s of
        None \<Rightarrow> s
      | Some k \<Rightarrow>
          (let s1 = s\<lparr>ka := Some (k\<lparr>keepAliveTimer := None\<rparr>)\<rparr> in
           case wsr_sendRequest (ping_options k) s1 of
             (Inl e, s2) \<Rightarrow> s2
           | (Inr req, s2) \<Rightarrow>
               if disconnect k
               then s2\<lparr>ka := map_option (\<lambda>k'. k'\<lparr>disconnectTimer := Some (now s2 + 1000)\<rparr>) (ka s2)\<rparr>
               else reset s2))"

definition disconnectTimer_fired :: "wsr \<Rightarrow> wsr" where
  "disconnectTimer_fired s =
     s\<lparr>ka := map_option (\<lambda>k. k\<lparr>keepAliveTimer := None, disconnectTimer := None\<rparr>) (ka s),
       res := close (Some 3001) (Some ''No response to keepalive request'') (res s)\<rparr>"

text \<open>One millisecond passes: the clock moves and the timers that are due run.\<close>

definition due :: "nat option \<Rightarrow> nat \<Rightarrow> bool" where
  "due t n = (case t of None \<Rightarrow> False | Some d \<Rightarrow> d \<le> n)"

definition tick :: "wsr \<Rightarrow> wsr" where
  "tick s =
     (let s1 = s\<lparr>now := Suc (now s)\<rparr>;
          s2 = (if due (Option.bind (ka s1) keepAliveTimer) (now s1)
                then keepAliveTimer_fired s1 else s1)
      in if due (Option.bind (ka s2) disconnectTimer) (now s2)
         then disconnectTimer_fired s2 else s2)"

fun elapse :: "nat \<Rightarrow> wsr \<Rightarrow> wsr" where
  "elapse 0 s = s"
| "elapse (Suc d) s = elapse d (tick s)"

text \<open>The decimal digits of a number, as a template literal renders it.\<close>

fun decimal :: "nat \<Rightarrow> string" where
  "decimal n =
     (if n < 10 then [''0123456789'' ! n]
      else decimal (n div 10) @ [''0123456789'' ! (n mod 10)])"

declare decimal.simps [simp del]

text \<open>
  \<open>onMessage\<close>. The decoded frame is the argument (\<open>Inl\<close> when \<open>decode\<close> throws); the
  result says whether the promise of this \<open>async\<close> function rejects, and with what. The
  handler of incoming requests is the parameter \<open>handleRequest\<close>; it sees the resource,
  and \<open>onMessage\<close> awaits it: when the handler throws or rejects, so does \<open>onMessage\<close>.
\<close>

definition incoming_options :: "string option \<Rightarrow> string option \<Rightarrow> bytes option \<Rightarrow> 64 word \<Rightarrow> options" where
  "incoming_options v p b i =
     \<lparr> opt_verb = v, opt_type = None, opt_path = p, opt_url = None, opt_body = b,
       opt_data = None, opt_success = None, opt_error = None, opt_id = Some i \<rparr>"

definition onMessage ::
  "(request \<Rightarrow> resource \<Rightarrow> error option \<times> resource) \<Rightarrow> error + wsmessage \<Rightarrow> wsr \<Rightarrow>
   error option \<times> wsr" where
  "onMessage handleRequest encodedMsg s =
     (case encodedMsg of
        Inl e \<Rightarrow> (Some e, s)
      | Inr (REQUEST v p b i) \<Rightarrow>
          (case Request (random s (draws s)) (incoming_options v p b i) of
             Inl e \<Rightarrow> (Some e, s)
           | Inr req \<Rightarrow>
               (case handleRequest req (res s) of
                  (outcome, r') \<Rightarrow> (outcome, s\<lparr>res := r'\<rparr>)))
      | Inr (RESPONSE i status message) \<Rightarrow>
          (let key = toNumber i in
           case outgoingRequests (res s) key of
             Some req \<Rightarrow>
               (let s' = s\<lparr>res := (res s)\<lparr>outgoingRequests := (outgoingRequests (res s))(key := None)\<rparr>\<rparr>;
                    callback = (if 200 \<le> status \<and> status < 300 then success req else error req)
                in case callback of
                     None \<Rightarrow> (None, s')
                   | Some KeepAlive_reset \<Rightarrow> (None, reset s')
                   | Some (Function f) \<Rightarrow>
                       (None, s'\<lparr>res := (res s')\<lparr>calls := calls (res s') @ [(f, message, status)]\<rparr>\<rparr>))
           | None \<Rightarrow> (Some (ReferenceError ''Unmatched WebSocket Response''), s))
      | Inr (OTHER t) \<Rightarrow> (Some (TypeError (''Unhandled message type: '' @ decimal t)), s))"

text \<open>The default handler of the constructor: \<open>request => request.respond(404, 'Not found')\<close>.\<close>

definition respond_404 :: "request \<Rightarrow> resource \<Rightarrow> error option \<times> resource" where
  "respond_404 req r =
     (case respond req 404 ''Not found'' r of
        Inl e \<Rightarrow> (Some e, r)
      | Inr r' \<Rightarrow> (None, r'))"

text \<open>
  What happens to a resource: a call of one of its methods, an event of its socket (the
  listeners run in the order the constructor registered them: \<open>onMessage\<close>, then the
  keep-alive's), or time passing.
\<close>

datatype event =
    Connect
  | SendRequest options
  | Close "nat option" "string option"
  | SocketOpen
  | SocketMessage "error + wsmessage"
  | SocketClose
  | Elapse nat

fun step :: "(request \<Rightarrow> resource \<Rightarrow> error option \<times> resource) \<Rightarrow> event \<Rightarrow> wsr \<Rightarrow> wsr" where
  "step h Connect s = s\<lparr>res := connect (res s)\<rparr>"
| "step h (SendRequest opts) s = snd (wsr_sendRequest opts s)"
| "step h (Close code reason) s = s\<lparr>res := close code reason (res s)\<rparr>"
| "step h SocketOpen s =
     reset (s\<lparr>res := (res s)\<lparr>socket := map_option (\<lambda>_. OPEN) (socket (res s))\<rparr>\<rparr>)"
| "step h (SocketMessage m) s = reset (snd (onMessage h m s))"
| "step h SocketClose s =
     stop (s\<lparr>res := (res s)\<lparr>socket := map_option (\<lambda>_. CLOSED) (socket (res s))\<rparr>\<rparr>)"
| "step h (Elapse d) s = elapse d s"

fun run ::
  "(request \<Rightarrow> resource \<Rightarrow> error option \<times> resource) \<Rightarrow> event list \<Rightarrow> wsr \<Rightarrow> wsr" where
  "run h [] s = s"
| "run h (e # es) s = run h es (step h e s)"

text \<open>
  \<open>new WebSocketResource(url, {keepalive: {path, disconnect}})\<close>: no socket, an empty
  table, the clock at 0.
\<close>

definition WebSocketResource :: "(string option \<times> bool option) option \<Rightarrow> (nat \<Rightarrow> entropy) \<Rightarrow> wsr" where
  "WebSocketResource keepalive_opts rnd =
     \<lparr> res = \<lparr> socket = None, outgoingRequests = Map.empty, wire = [], calls = [] \<rparr>,
       ka = map_option (\<lambda>(p, d). KeepAlive p d) keepalive_opts,
       now = 0, random = rnd, draws = 0 \<rparr>"

section \<open>MessageReceiver: messages and events\<close>

text \<open>
  The protobuf messages, as far as the receiver reads them. An absent field is \<open>None\<close>.
  A member of a group is a number or \<open>undefined\<close>: \<open>processDecrypted\<close> stores
  \<open>[source]\<close> also when it was called without a source.
\<close>

datatype envelope_type = CIPHERTEXT | PREKEY_BUNDLE | RECEIPT | UNKNOWN

record envelope =
  e_type :: envelope_type
  e_source :: string
  e_sourceDevice :: nat
  e_timestamp :: nat
  e_legacyMessage :: "bytes option"
  e_content :: "bytes option"

record attachment =
  att_id :: "64 word"
  att_key :: bytes
  att_data :: "bytes option"

datatype group_type = UPDATE | DELIVER | QUIT | UNKNOWN_GROUP_TYPE

record group_context =
  g_id :: bytes
  g_type :: group_type
  g_name :: "string option"
  g_members :: "string option list"
  g_avatar :: "attachment option"
  g_added :: "string option list option"

text \<open>
  \<open>dm_sync_null\<close> says whether the decoded object has a property \<open>sync\<close> that is
  \<open>null\<close>, which \<open>tryMessageAgain\<close> asks.
\<close>

record data_message =
  dm_flags :: "32 word option"
  dm_body :: "string option"
  dm_attachments :: "attachment list"
  dm_group :: "group_context option"
  dm_expireTimer :: "nat option"
  dm_sync_null :: bool

record sent_message =
  s_destination :: string
  s_timestamp :: nat
  s_message :: "data_message option"
  s_expirationStartTimestamp :: "nat option"

record read_message =
  r_timestamp :: nat
  r_sender :: "string option"

record sync_message =
  sm_sent :: "sent_message option"
  sm_contacts :: "attachment option"
  sm_groups :: "attachment option"
  sm_blocked :: "string list option"
  sm_request :: bool
  sm_read :: "read_message list option"

record content =
  c_dataMessage :: "data_message option"
  c_syncMessage :: "sync_message option"

text \<open>The events the receiver dispatches, with what the handler puts on them.\<close>

datatype revent =
    ErrorEvent error "envelope option"
  | ReceiptEvent envelope
  | MessageEvent string nat data_message
  | SentEvent string nat data_message "nat option"
  | ReadEvent nat nat "string option"

text \<open>
  The collaborators that are not in the sources, each as its result: the signaling-key
  decryption of \<open>crypto.js\<close>, the decoders of \<open>protobufs.js\<close>, the session cipher and
  the device list of the protocol store, the attachment download of \<open>api.js\<close>, the
  attachment decryption, and the two flag values of \<open>DataMessage.Flags\<close>. A rejected
  promise or an exception is \<open>Inl\<close>.
\<close>

record world =
  decryptWebsocketMessage :: "bytes option \<Rightarrow> bytes \<Rightarrow> error + bytes"
  decode_Envelope :: "bytes \<Rightarrow> error + envelope"
  decode_Content :: "bytes option \<Rightarrow> error + content"
  decode_DataMessage :: "bytes option \<Rightarrow> error + data_message"
  cipher_decryptWhisperMessage :: "string \<times> nat \<Rightarrow> bytes \<Rightarrow> error + bytes"
  cipher_decryptPreKeyWhisperMessage :: "string \<times> nat \<Rightarrow> bytes \<Rightarrow> error + bytes"
  closeOpenSessionForDevice :: "string \<times> nat \<Rightarrow> error option"
  getDeviceIds :: "string \<Rightarrow> error + nat list"
  fromString :: "string \<Rightarrow> error + string \<times> nat"
  getAttachment :: "64 word \<Rightarrow> error + bytes"
  decryptAttachment :: "bytes \<Rightarrow> bytes \<Rightarrow> error + bytes"
  END_SESSION :: "32 word"
  EXPIRATION_TIMER_UPDATE :: "32 word"

text \<open>
  What the handlers of the receiver read and write: its own number and device id, the
  signaling key, the stored list of blocked numbers, the group roster, the addresses
  whose session it has asked the session cipher to close, and the events dispatched so
  far.
\<close>

record receiver =
  number :: string
  deviceId :: nat
  signalingKey :: bytes
  blocked :: "string list"
  groups :: "bytes \<rightharpoonup> string option list"
  closed :: "(string \<times> nat) list"
  dispatched :: "revent list"

definition dispatchEvent :: "revent \<Rightarrow> receiver \<Rightarrow> receiver" where
  "dispatchEvent ev r = r\<lparr>dispatched := dispatched r @ [ev]\<rparr>"

section \<open>The group roster\<close>

text \<open>
  \<open>storage.groups\<close>, which keeps the roster, is not in the sources. The roster is a map
  from the id of a group to its members, and each operation the receiver calls is
  modelled from what the spec says of it.
\<close>

text \<open>
  Modelled from the spec: \<open>storage.groups.getNumbers\<close> is missing; the spec speaks of
  the "local group for id", absent or existing.
\<close>

definition getNumbers :: "(bytes \<rightharpoonup> string option list) \<Rightarrow> bytes \<Rightarrow> string option list option" where
  "getNumbers G i = G i"

text \<open>
  Modelled from the spec: \<open>storage.groups.createNewGroup\<close> is missing; the spec has
  "create with context.members", or with the source only.
\<close>

definition createNewGroup ::
  "string option list \<Rightarrow> bytes \<Rightarrow> (bytes \<rightharpoonup> string option list) \<Rightarrow> (bytes \<rightharpoonup> string option list)" where
  "createNewGroup ms i G = G(i \<mapsto> ms)"

text \<open>
  Modelled from the spec: \<open>storage.groups.updateNumbers\<close> is missing; the spec has
  "store new member set, compute added = new - old".
\<close>

definition updateNumbers ::
  "bytes \<Rightarrow> string option list \<Rightarrow> (bytes \<rightharpoonup> string option list) \<Rightarrow>
   string option list \<times> (bytes \<rightharpoonup> string option list)" where
  "updateNumbers i ms G =
     (filter (\<lambda>m. m \<notin> set (case G i of None \<Rightarrow> [] | Some old \<Rightarrow> old)) ms, G(i \<mapsto> ms))"

text \<open>
  Modelled from the spec: \<open>storage.groups.deleteGroup\<close> is missing; the spec has
  "delete the group".
\<close>

definition deleteGroup :: "bytes \<Rightarrow> (bytes \<rightharpoonup> string option list) \<Rightarrow> (bytes \<rightharpoonup> string option list)" where
  "deleteGroup i G = G(i := None)"

text \<open>
  Modelled from the spec: \<open>storage.groups.removeNumber\<close> is missing; the spec has
  "remove source from its membership".
\<close>

definition removeNumber ::
  "bytes \<Rightarrow> string option \<Rightarrow> (bytes \<rightharpoonup> string option list) \<Rightarrow> (bytes \<rightharpoonup> string option list)" where
  "removeNumber i m G = (case G i of None \<Rightarrow> G | Some old \<Rightarrow> G(i \<mapsto> filter (\<lambda>x. x \<noteq> m) old))"

section \<open>MessageReceiver: decrypting\<close>

text \<open>\<open>e.message\<close> and \<open>e.identityKey\<close> of a caught error.\<close>

fun message_of :: "error \<Rightarrow> string" where
  "message_of (Error m) = m"
| "message_of (TypeError m) = m"
| "message_of (ReferenceError m) = m"
| "message_of (RangeError m) = m"
| "message_of (KeyError m k) = m"
| "message_of (IncomingIdentityKeyError a c k) = ''IncomingIdentityKeyError''"

fun identityKey_of :: "error \<Rightarrow> bytes option" where
  "identityKey_of (KeyError m k) = Some k"
| "identityKey_of (IncomingIdentityKeyError a c k) = k"
| "identityKey_of e = None"

text \<open>
  \<open>decryptPreKeyWhisperMessage\<close>: the session cipher, then \<open>unpad\<close>; an error of
  either whose message is \<open>Unknown identity key\<close> is replaced.
\<close>

definition decryptPreKeyWhisperMessage ::
  "world \<Rightarrow> bytes \<Rightarrow> string \<times> nat \<Rightarrow> error + bytes option" where
  "decryptPreKeyWhisperMessage w ciphertext address =
     (case (case cipher_decryptPreKeyWhisperMessage w address ciphertext of
              Inl e \<Rightarrow> Inl e
            | Inr padded \<Rightarrow> unpad padded) of
        Inl e \<Rightarrow>
          if message_of e = ''Unknown identity key''
          then Inl (IncomingIdentityKeyError address ciphertext (identityKey_of e))
          else Inl e
      | Inr plaintext \<Rightarrow> Inr plaintext)"

text \<open>
  \<open>decrypt\<close>: by the type of the envelope; whatever fails, the final \<open>catch\<close>
  dispatches an \<open>error\<close> event with the error and the envelope, and rejects again.
\<close>

definition decrypt ::
  "world \<Rightarrow> envelope \<Rightarrow> bytes \<Rightarrow> receiver \<Rightarrow> (error + bytes option) \<times> receiver" where
  "decrypt w envelope ciphertext r =
     (let address = (e_source envelope, e_sourceDevice envelope);
          promise =
            (case e_type envelope of
               CIPHERTEXT \<Rightarrow>
                 (case cipher_decryptWhisperMessage w address ciphertext of
                    Inl e \<Rightarrow> Inl e
                  | Inr padded \<Rightarrow> unpad padded)
             | PREKEY_BUNDLE \<Rightarrow> decryptPreKeyWhisperMessage w ciphertext address
             | _ \<Rightarrow> Inl (Error ''Unknown message type''))
      in case promise of
           Inl e \<Rightarrow> (Inl e, dispatchEvent (ErrorEvent e (Some envelope)) r)
         | Inr plaintext \<Rightarrow> (Inr plaintext, r))"

section \<open>MessageReceiver: processing a decrypted message\<close>

text \<open>
  \<open>Promise.all\<close> rejects with the rejection that comes first in time; the model takes
  the first in the order of the array.
\<close>

fun first_error :: "error option list \<Rightarrow> error option" where
  "first_error [] = None"
| "first_error (Some e # xs) = Some e"
| "first_error (None # xs) = first_error xs"

definition error_of :: "error + 'a \<Rightarrow> error option" where
  "error_of x = (case x of Inl e \<Rightarrow> Some e | Inr v \<Rightarrow> None)"

text \<open>
  \<open>handleEndSession(number)\<close>: \<open>closeOpenSessionForDevice\<close> is called for every
  device id stored for the number, whether or not one of the calls fails; the result is
  the settlement of \<open>Promise.all\<close>.
\<close>

definition handleEndSession :: "world \<Rightarrow> string \<Rightarrow> receiver \<Rightarrow> error option \<times> receiver" where
  "handleEndSession w n r =
     (case getDeviceIds w n of
        Inl e \<Rightarrow> (Some e, r)
      | Inr deviceIds \<Rightarrow>
          (first_error (map (\<lambda>d. closeOpenSessionForDevice w (n, d)) deviceIds),
           r\<lparr>closed := closed r @ map (Pair n) deviceIds\<rparr>))"

text \<open>\<open>(message.flags & END_SESSION) == END_SESSION\<close>; a missing \<open>flags\<close> counts as 0.\<close>

definition has_END_SESSION :: "world \<Rightarrow> 32 word option \<Rightarrow> bool" where
  "has_END_SESSION w f = ((case f of None \<Rightarrow> 0 | Some x \<Rightarrow> x) AND END_SESSION w = END_SESSION w)"

definition handleAttachment :: "world \<Rightarrow> attachment \<Rightarrow> error + attachment" where
  "handleAttachment w a =
     (case getAttachment w (att_id a) of
        Inl e \<Rightarrow> Inl e
      | Inr encrypted \<Rightarrow>
          (case decryptAttachment w encrypted (att_key a) of
             Inl e \<Rightarrow> Inl e
           | Inr d \<Rightarrow> Inr (a\<lparr>att_data := Some d\<rparr>)))"

text \<open>An attachment after its download: with the data if that succeeded, as it was if not.\<close>

definition fetched :: "world \<Rightarrow> attachment \<Rightarrow> attachment" where
  "fetched w a = (case handleAttachment w a of Inl e \<Rightarrow> a | Inr a' \<Rightarrow> a')"

text \<open>
  The callback of \<open>storage.groups.getNumbers\<close> in \<open>processDecrypted\<close>: the message it
  leaves and the roster it leaves.
\<close>

definition processDecrypted_group ::
  "string \<Rightarrow> string option \<Rightarrow> data_message \<Rightarrow> group_context \<Rightarrow> (bytes \<rightharpoonup> string option list) \<Rightarrow>
   (error + data_message) \<times> (bytes \<rightharpoonup> string option list)" where
  "processDecrypted_group me source decrypted g G =
     (case getNumbers G (g_id g) of
        None \<Rightarrow>
          (let g' = (if g_type g \<noteq> UPDATE then g\<lparr>g_members := [source]\<rparr> else g)
           in (Inr (decrypted\<lparr>dm_group := Some g'\<rparr>), createNewGroup (g_members g') (g_id g') G))
      | Some existingGroup \<Rightarrow>
          (case g_type g of
             UPDATE \<Rightarrow>
               (case updateNumbers (g_id g) (g_members g) G of
                  (added, G') \<Rightarrow>
                    (let d' = decrypted\<lparr>dm_group := Some (g\<lparr>g_added := Some added\<rparr>)\<rparr>
                     in if g_avatar g = None \<and> added = [] \<and> g_name g = None
                        then (Inr d', G')
                        else (Inr (d'\<lparr>dm_body := None, dm_attachments := []\<rparr>), G')))
           | QUIT \<Rightarrow>
               (Inr (decrypted\<lparr>dm_body := None, dm_attachments := []\<rparr>),
                if source = Some me then deleteGroup (g_id g) G
                else removeNumber (g_id g) source G)
           | DELIVER \<Rightarrow>
               (Inr (decrypted\<lparr>dm_group :=
                   Some (g\<lparr>g_name := None, g_members := [], g_avatar := None\<rparr>)\<rparr>), G)
           | UNKNOWN_GROUP_TYPE \<Rightarrow> (Inl (Error ''Unknown group message type''), G)))"

text \<open>
  \<open>processDecrypted(decrypted, source)\<close>, in two parts. \<open>processDecrypted_promises\<close>
  is what follows the checks of the flags: the downloads and the group callback, which
  run concurrently in the source; here the downloads fill in their data first and the
  group callback then sees the message, which gives the same message and roster.
\<close>

definition processDecrypted_promises ::
  "world \<Rightarrow> data_message \<Rightarrow> string option \<Rightarrow> receiver \<Rightarrow> (error + data_message) \<times> receiver" where
  "processDecrypted_promises w decrypted source r =
     (let avatar = (case dm_group decrypted of
                      None \<Rightarrow> None
                    | Some g \<Rightarrow> if g_type g = UPDATE then g_avatar g else None);
          decrypted' = decrypted
            \<lparr>dm_group := map_option
                 (\<lambda>g. if g_type g = UPDATE then g\<lparr>g_avatar := map_option (fetched w) (g_avatar g)\<rparr>
                      else g) (dm_group decrypted),
             dm_attachments := map (fetched w) (dm_attachments decrypted)\<rparr>;
          grp = (case dm_group decrypted' of
                   None \<Rightarrow> (Inr decrypted', groups r)
                 | Some g \<Rightarrow> processDecrypted_group (number r) source decrypted' g (groups r));
          promises = (case avatar of None \<Rightarrow> [] | Some a \<Rightarrow> [error_of (handleAttachment w a)])
                     @ (case dm_group decrypted of None \<Rightarrow> [] | Some g \<Rightarrow> [error_of (fst grp)])
                     @ map (\<lambda>a. error_of (handleAttachment w a)) (dm_attachments decrypted)
      in case first_error promises of
           Some e \<Rightarrow> (Inl e, r\<lparr>groups := snd grp\<rparr>)
         | None \<Rightarrow> (fst grp, r\<lparr>groups := snd grp\<rparr>))"

definition processDecrypted ::
  "world \<Rightarrow> data_message \<Rightarrow> string option \<Rightarrow> receiver \<Rightarrow> (error + data_message) \<times> receiver" where
  "processDecrypted w decrypted0 source r =
     (let f = (case dm_flags decrypted0 of None \<Rightarrow> 0 | Some x \<Rightarrow> x);
          t = (case dm_expireTimer decrypted0 of None \<Rightarrow> 0 | Some x \<Rightarrow> x);
          decrypted = decrypted0\<lparr>dm_flags := Some f, dm_expireTimer := Some t\<rparr>
      in if f AND END_SESSION w \<noteq> 0
         then (Inr (decrypted\<lparr>dm_body := None, dm_attachments := [], dm_group := None\<rparr>), r)
         else if f AND EXPIRATION_TIMER_UPDATE w \<noteq> 0
         then processDecrypted_promises w (decrypted\<lparr>dm_body := None, dm_attachments := []\<rparr>) source r
         else if f \<noteq> 0
         then (Inl (Error ''Unknown flags in message''), r)
         else processDecrypted_promises w decrypted source r)"

section \<open>MessageReceiver: the handlers of an envelope\<close>

definition onDeliveryReceipt :: "envelope \<Rightarrow> receiver \<Rightarrow> receiver" where
  "onDeliveryReceipt envelope r = dispatchEvent (ReceiptEvent envelope) r"

definition handleDataMessage ::
  "world \<Rightarrow> envelope \<Rightarrow> data_message \<Rightarrow> receiver \<Rightarrow> error option \<times> receiver" where
  "handleDataMessage w envelope message r =
     (case (if has_END_SESSION w (dm_flags message)
            then handleEndSession w (e_source envelope) r else (None, r)) of
        (Some e, r1) \<Rightarrow> (Some e, r1)
      | (None, r1) \<Rightarrow>
          (case processDecrypted w message (Some (e_source envelope)) r1 of
             (Inl e, r') \<Rightarrow> (Some e, r')
           | (Inr m, r') \<Rightarrow>
               (None, dispatchEvent (MessageEvent (e_source envelope) (e_timestamp envelope) m) r')))"

definition handleSentMessage ::
  "world \<Rightarrow> string \<Rightarrow> nat \<Rightarrow> data_message option \<Rightarrow> nat option \<Rightarrow> receiver \<Rightarrow>
   error option \<times> receiver" where
  "handleSentMessage w destination ts message expirationStartTimestamp r =
     (case message of
        None \<Rightarrow> (Some (TypeError ''Cannot read property flags of null''), r)
      | Some msg \<Rightarrow>
          (case (if has_END_SESSION w (dm_flags msg)
                 then handleEndSession w destination r else (None, r)) of
             (Some e, r1) \<Rightarrow> (Some e, r1)
           | (None, r1) \<Rightarrow>
               (case processDecrypted w msg (Some (number r1)) r1 of
                  (Inl e, r') \<Rightarrow> (Some e, r')
                | (Inr m, r') \<Rightarrow>
                    (None, dispatchEvent (SentEvent destination ts m expirationStartTimestamp) r'))))"

fun handleRead :: "read_message list \<Rightarrow> nat \<Rightarrow> receiver \<Rightarrow> receiver" where
  "handleRead [] ts r = r"
| "handleRead (x # xs) ts r =
     handleRead xs ts (dispatchEvent (ReadEvent ts (r_timestamp x) (r_sender x)) r)"

definition handleBlocked :: "string list \<Rightarrow> receiver \<Rightarrow> receiver" where
  "handleBlocked numbers r = r\<lparr>blocked := numbers\<rparr>"

text \<open>
  \<open>handleSyncMessage\<close>. The promises of \<open>handleContacts\<close> and \<open>handleGroups\<close> are
  dropped by the source (they are not returned), so the handler is done without them;
  what they do later, with \<open>ContactBuffer\<close> and \<open>GroupBuffer\<close> that the sources do not
  have, is outside this function and outside the model.
\<close>

definition handleSyncMessage ::
  "world \<Rightarrow> envelope \<Rightarrow> sync_message \<Rightarrow> receiver \<Rightarrow> error option \<times> receiver" where
  "handleSyncMessage w envelope syncMessage r =
     (if e_source envelope \<noteq> number r
      then (Some (Error ''Received sync message from another number''), r)
      else if e_sourceDevice envelope = deviceId r
      then (Some (Error ''Received sync message from our own device''), r)
      else (case sm_sent syncMessage of
        Some sentMessage \<Rightarrow>
          handleSentMessage w (s_destination sentMessage) (s_timestamp sentMessage)
            (s_message sentMessage) (s_expirationStartTimestamp sentMessage) r
      | None \<Rightarrow>
          if sm_contacts syncMessage \<noteq> None then (None, r)
          else if sm_groups syncMessage \<noteq> None then (None, r)
          else (case sm_blocked syncMessage of
            Some b \<Rightarrow> (None, handleBlocked b r)
          | None \<Rightarrow>
              if sm_request syncMessage then (None, r)
              else (case sm_read syncMessage of
                Some rd \<Rightarrow> (None, handleRead rd (e_timestamp envelope) r)
              | None \<Rightarrow> (Some (Error ''Got empty SyncMessage''), r)))))"

definition handleLegacyMessage ::
  "world \<Rightarrow> envelope \<Rightarrow> bytes \<Rightarrow> receiver \<Rightarrow> error option \<times> receiver" where
  "handleLegacyMessage w envelope legacyMessage r =
     (case decrypt w envelope legacyMessage r of
        (Inl e, r') \<Rightarrow> (Some e, r')
      | (Inr plaintext, r') \<Rightarrow>
          (case decode_DataMessage w plaintext of
             Inl e \<Rightarrow> (Some e, r')
           | Inr message \<Rightarrow> handleDataMessage w envelope message r'))"

definition handleContentMessage ::
  "world \<Rightarrow> envelope \<Rightarrow> bytes \<Rightarrow> receiver \<Rightarrow> error option \<times> receiver" where
  "handleContentMessage w envelope c r =
     (case decrypt w envelope c r of
        (Inl e, r') \<Rightarrow> (Some e, r')
      | (Inr plaintext, r') \<Rightarrow>
          (case decode_Content w plaintext of
             Inl e \<Rightarrow> (Some e, r')
           | Inr cont \<Rightarrow>
               (case c_syncMessage cont of
                  Some syncMessage \<Rightarrow> handleSyncMessage w envelope syncMessage r'
                | None \<Rightarrow>
                    (case c_dataMessage cont of
                       Some dataMessage \<Rightarrow> handleDataMessage w envelope dataMessage r'
                     | None \<Rightarrow>
                         (Some (Error ''Got Content message with no dataMessage and no syncMessage''),
                          r')))))"

text \<open>
  \<open>handleEnvelope\<close>: the result is the settlement of the promise it returns (or of the
  exception it throws): \<open>None\<close> is fulfilled, \<open>Some e\<close> is rejected with \<open>e\<close>.
\<close>

definition handleEnvelope :: "world \<Rightarrow> envelope \<Rightarrow> receiver \<Rightarrow> error option \<times> receiver" where
  "handleEnvelope w envelope r =
     (if e_type envelope = RECEIPT then (None, onDeliveryReceipt envelope r)
      else case e_content envelope of
        Some c \<Rightarrow> handleContentMessage w envelope c r
      | None \<Rightarrow>
          (case e_legacyMessage envelope of
             Some l \<Rightarrow> handleLegacyMessage w envelope l r
           | None \<Rightarrow>
               (Some (Error ''Received message with no content and no legacyMessage''), r)))"

text \<open>
  \<open>tryMessageAgain(from, ciphertext)\<close>: the promise it returns resolves to the processed
  message. \<open>processDecrypted\<close> is called without a source.
\<close>

definition tryMessageAgain ::
  "world \<Rightarrow> string \<Rightarrow> bytes \<Rightarrow> receiver \<Rightarrow> (error + data_message) \<times> receiver" where
  "tryMessageAgain w from ciphertext r =
     (case fromString w from of
        Inl e \<Rightarrow> (Inl e, r)
      | Inr address \<Rightarrow>
          (case decryptPreKeyWhisperMessage w ciphertext address of
             Inl e \<Rightarrow> (Inl e, r)
           | Inr plaintext \<Rightarrow>
               (case decode_DataMessage w plaintext of
                  Inl e \<Rightarrow> (Inl e, r)
                | Inr finalMessage \<Rightarrow>
                    (case (if has_END_SESSION w (dm_flags finalMessage) \<and> \<not> dm_sync_null finalMessage
                           then handleEndSession w (fst address) r else (None, r)) of
                       (Some e, r1) \<Rightarrow> (Inl e, r1)
                     | (None, r1) \<Rightarrow> processDecrypted w finalMessage None r1))))"

section \<open>MessageReceiver: requests and the queue of envelopes\<close>

text \<open>
  \<open>this.pending\<close> is a chain of promises. The promises are numbered in the order they
  are made; \<open>promises\<close> holds the state of each. \<open>p.then(h, h)\<close> with \<open>h\<close> the
  handler of an envelope makes a new promise \<open>q\<close> and registers the reaction
  \<open>(p, q, envelope)\<close>: once \<open>p\<close> is settled, fulfilled or rejected, \<open>h\<close> is called, and
  \<open>q\<close> settles as what \<open>h\<close> returns settles. \<open>inflight\<close> holds the handlers that were
  called and whose promise is still pending.

  \<open>trace\<close> records, in order, each envelope queued (\<open>Queued q\<close>, with the number of
  the promise made for it), each handler called (\<open>Started q\<close>), each event dispatched
  (by handler \<open>q\<close>, or outside the queue) and each handler's promise settling.
\<close>

datatype pstate = Pending | Fulfilled | Rejected error

datatype item =
    Queued nat
  | Started nat
  | Settled nat "error option"
  | Dispatched "nat option" revent

record messageReceiver =
  core :: receiver
  wsr_res :: resource
  promises :: "pstate list"
  reactions :: "(nat \<times> nat \<times> envelope) list"
  inflight :: "(nat \<times> envelope) list"
  pending :: nat
  trace :: "item list"

definition isBlocked :: "string \<Rightarrow> receiver \<Rightarrow> bool" where
  "isBlocked n r = False"

definition queueEnvelope :: "envelope \<Rightarrow> messageReceiver \<Rightarrow> messageReceiver" where
  "queueEnvelope envelope m =
     m\<lparr>promises := promises m @ [Pending],
       reactions := reactions m @ [(pending m, length (promises m), envelope)],
       pending := length (promises m),
       trace := trace m @ [Queued (length (promises m))]\<rparr>"

text \<open>
  The \<open>catch\<close> of \<open>handleRequest\<close>: respond 500, then dispatch an \<open>error\<close> event. If
  \<open>respond\<close> throws there, nothing else runs.
\<close>

definition handleRequest_catch :: "error \<Rightarrow> request \<Rightarrow> messageReceiver \<Rightarrow> messageReceiver" where
  "handleRequest_catch e req m =
     (case respond req 500 ''Bad encrypted websocket message'' (wsr_res m) of
        Inl e' \<Rightarrow> m
      | Inr res' \<Rightarrow>
          m\<lparr>wsr_res := res',
            core := dispatchEvent (ErrorEvent e None) (core m),
            trace := trace m @ [Dispatched None (ErrorEvent e None)]\<rparr>)"

text \<open>
  \<open>handleRequest\<close>, from the moment the promise of \<open>crypto.decryptWebsocketMessage\<close>
  settles. In the \<open>then\<close> callback the envelope is decoded, 200 is sent, and the
  envelope is queued unless its source is blocked; the \<open>catch\<close> behind it takes a
  rejection of the decryption and every exception of the callback.
\<close>

definition handleRequest :: "world \<Rightarrow> request \<Rightarrow> messageReceiver \<Rightarrow> messageReceiver" where
  "handleRequest w req m =
     (case decryptWebsocketMessage w (body req) (signalingKey (core m)) of
        Inl e \<Rightarrow> handleRequest_catch e req m
      | Inr plaintext \<Rightarrow>
          (case decode_Envelope w plaintext of
             Inl e \<Rightarrow> handleRequest_catch e req m
           | Inr envelope \<Rightarrow>
               (case respond req 200 ''OK'' (wsr_res m) of
                  Inl e \<Rightarrow> handleRequest_catch e req m
                | Inr res' \<Rightarrow>
                    (let m' = m\<lparr>wsr_res := res'\<rparr>
                     in if \<not> isBlocked (e_source envelope) (core m')
                        then queueEnvelope envelope m' else m'))))"

text \<open>
  The first reaction whose promise is settled, and the reactions that remain.
\<close>

fun take_ready ::
  "pstate list \<Rightarrow> (nat \<times> nat \<times> envelope) list \<Rightarrow>
   ((nat \<times> nat \<times> envelope) \<times> (nat \<times> nat \<times> envelope) list) option" where
  "take_ready ps [] = None"
| "take_ready ps ((p, q, envelope) # rs) =
     (if p < length ps \<and> ps ! p \<noteq> Pending then Some ((p, q, envelope), rs)
      else (case take_ready ps rs of
              None \<Rightarrow> None
            | Some (x, rest) \<Rightarrow> Some (x, (p, q, envelope) # rest)))"

definition settle :: "nat \<Rightarrow> error option \<Rightarrow> messageReceiver \<Rightarrow> messageReceiver" where
  "settle q outcome m =
     m\<lparr>promises := (promises m)[q := (case outcome of None \<Rightarrow> Fulfilled | Some e \<Rightarrow> Rejected e)],
       trace := trace m @ [Settled q outcome]\<rparr>"

text \<open>
  The handler of promise \<open>q\<close> runs to its end: the events it dispatched go to the
  trace under its number, then its promise settles.
\<close>

definition run_handler :: "world \<Rightarrow> nat \<Rightarrow> envelope \<Rightarrow> messageReceiver \<Rightarrow> messageReceiver" where
  "run_handler w q envelope m =
     (case handleEnvelope w envelope (core m) of
        (outcome, r') \<Rightarrow>
          settle q outcome
            (m\<lparr>core := r',
               trace := trace m @
                 map (Dispatched (Some q)) (drop (length (dispatched (core m))) (dispatched r'))\<rparr>))"

text \<open>
  A handler that goes to the session cipher returns a promise that is pending; a receipt
  and an envelope with nothing in it are done when \<open>handleEnvelope\<close> returns.
\<close>

definition awaits :: "envelope \<Rightarrow> bool" where
  "awaits envelope =
     (e_type envelope \<noteq> RECEIPT \<and> (e_content envelope \<noteq> None \<or> e_legacyMessage envelope \<noteq> None))"

text \<open>
  \<open>connect()\<close>: a new resource (whose socket is \<open>null\<close> until it connects) and
  \<open>this.pending = Promise.resolve()\<close>, a new promise that is fulfilled.
\<close>

definition receiver_connect :: "messageReceiver \<Rightarrow> messageReceiver" where
  "receiver_connect m =
     m\<lparr>wsr_res := \<lparr> socket = None, outgoingRequests = Map.empty, wire = [], calls = [] \<rparr>,
       promises := promises m @ [Fulfilled],
       pending := length (promises m)\<rparr>"

text \<open>
  What happens to the receiver: \<open>connect()\<close>; the socket of its resource opening; a
  request whose decryption has settled; the next reaction of the chain being called; the
  pending handler of promise \<open>q\<close> running to its end; the consumer calling
  \<open>tryMessageAgain\<close>. The collaborators may answer differently at each step.
\<close>

datatype action =
    Reconnect
  | Opened
  | Deliver request
  | RunNext
  | Complete nat
  | Retry string bytes

fun receiver_step :: "world \<Rightarrow> action \<Rightarrow> messageReceiver \<Rightarrow> messageReceiver" where
  "receiver_step w Reconnect m = receiver_connect m"
| "receiver_step w Opened m = m\<lparr>wsr_res := (wsr_res m)\<lparr>socket := Some OPEN\<rparr>\<rparr>"
| "receiver_step w (Deliver req) m = handleRequest w req m"
| "receiver_step w RunNext m =
     (case take_ready (promises m) (reactions m) of
        None \<Rightarrow> m
      | Some ((p, q, envelope), rest) \<Rightarrow>
          (let m' = m\<lparr>reactions := rest, trace := trace m @ [Started q]\<rparr>
           in if awaits envelope then m'\<lparr>inflight := inflight m' @ [(q, envelope)]\<rparr>
              else run_handler w q envelope m'))"
| "receiver_step w (Complete q) m =
     (case map_of (inflight m) q of
        None \<Rightarrow> m
      | Some envelope \<Rightarrow>
          run_handler w q envelope (m\<lparr>inflight := filter (\<lambda>x. fst x \<noteq> q) (inflight m)\<rparr>))"
| "receiver_step w (Retry from ciphertext) m =
     (case tryMessageAgain w from ciphertext (core m) of
        (result, r') \<Rightarrow>
          m\<lparr>core := r',
            trace := trace m @
              map (Dispatched None) (drop (length (dispatched (core m))) (dispatched r'))\<rparr>)"

fun exec :: "(world \<times> action) list \<Rightarrow> messageReceiver \<Rightarrow> messageReceiver" where
  "exec [] m = m"
| "exec ((w, a) # was) m = exec was (receiver_step w a m)"

text \<open>
  \<open>new MessageReceiver(...)\<close> followed by its \<open>connect()\<close>, for a receiver with the
  given number, device id and signaling key: nothing stored, nothing dispatched, the
  chain at its first, fulfilled promise.
\<close>

definition MessageReceiver :: "string \<Rightarrow> nat \<Rightarrow> bytes \<Rightarrow> messageReceiver" where
  "MessageReceiver n d k =
     \<lparr> core = \<lparr> number = n, deviceId = d, signalingKey = k, blocked = [], groups = Map.empty,
                closed = [], dispatched = [] \<rparr>,
       wsr_res = \<lparr> socket = None, outgoingRequests = Map.empty, wire = [], calls = [] \<rparr>,
       promises = [Fulfilled], reactions = [], inflight = [], pending = 0, trace = [] \<rparr>"

section \<open>Receiver scenarios\<close>

text \<open>
  The envelope of a request, if it has one: the signaling-key decryption of the body,
  then the decoding of the plaintext, as the first two steps of \<open>handleRequest\<close>.
\<close>

definition envelope_of :: "world \<Rightarrow> request \<Rightarrow> messageReceiver \<Rightarrow> error + envelope" where
  "envelope_of w req m =
     (case decryptWebsocketMessage w (body req) (signalingKey (core m)) of
        Inl e \<Rightarrow> Inl e
      | Inr plaintext \<Rightarrow> decode_Envelope w plaintext)"

text \<open>
  A sender, an envelope of hers with content, and the data message in it; a world in
  which every decryption succeeds and gives that message, padded as
  \<open>"hello" || 0x80\<close>; a world in which the signaling-key decryption succeeds and the
  plaintext is not an envelope; and the relay's request \<open>PUT /messages\<close>.
\<close>

definition alice :: string where
  "alice = ''+15551234567''"

definition hello_envelope :: envelope where
  "hello_envelope =
     \<lparr> e_type = CIPHERTEXT, e_source = alice, e_sourceDevice = 1, e_timestamp = 1000,
       e_legacyMessage = None, e_content = Some [1, 2, 3] \<rparr>"

definition hello_message :: data_message where
  "hello_message =
     \<lparr> dm_flags = None, dm_body = Some ''hello'', dm_attachments = [], dm_group = None,
       dm_expireTimer = None, dm_sync_null = False \<rparr>"

definition hello_world :: world where
  "hello_world =
     \<lparr> decryptWebsocketMessage = (\<lambda>b k. Inr [10]),
       decode_Envelope = (\<lambda>p. Inr hello_envelope),
       decode_Content = (\<lambda>p. Inr \<lparr> c_dataMessage = Some hello_message, c_syncMessage = None \<rparr>),
       decode_DataMessage = (\<lambda>p. Inr hello_message),
       cipher_decryptWhisperMessage = (\<lambda>a c. Inr [104, 101, 108, 108, 111, 0x80]),
       cipher_decryptPreKeyWhisperMessage = (\<lambda>a c. Inr [104, 101, 108, 108, 111, 0x80]),
       closeOpenSessionForDevice = (\<lambda>a. None),
       getDeviceIds = (\<lambda>n. Inr [1]),
       fromString = (\<lambda>s. Inr (alice, 1)),
       getAttachment = (\<lambda>i. Inr []),
       decryptAttachment = (\<lambda>e k. Inr []),
       END_SESSION = 1,
       EXPIRATION_TIMER_UPDATE = 2 \<rparr>"

definition garbled_world :: world where
  "garbled_world = hello_world\<lparr>decode_Envelope := (\<lambda>p. Inl (Error ''index out of range''))\<rparr>"

definition put_messages :: request where
  "put_messages =
     \<lparr> verb = Some ''PUT'', path = Some ''/messages'', body = Some [9, 9], success = None,
       error = None, req_id = 7 \<rparr>"

definition open_receiver :: messageReceiver where
  "open_receiver = receiver_step hello_world Opened (MessageReceiver ''+15550000000'' 2 [])"

text \<open>The same receiver after a sync message has stored the sender as blocked.\<close>

definition blocking_receiver :: messageReceiver where
  "blocking_receiver = open_receiver\<lparr>core := handleBlocked [alice] (core open_receiver)\<rparr>"



section \<open>The order of the trace\<close>











section \<open>Keep-alive scenarios\<close>

text \<open>
  The frame of the keep-alive ping: \<open>GET\<close> on the configured path (an empty path is
  falsy in the constructor and is sent as no path), no body, and the id drawn from two
  random bytes.
\<close>

definition ping :: "keepalive \<Rightarrow> entropy \<Rightarrow> request" where
  "ping k e = \<lparr> verb = Some ''GET'', path = (if ka_path k = [] then None else Some (ka_path k)),
                body = None, success = Some KeepAlive_reset, error = None,
                req_id = Long (ucast (e 0)) (ucast (e 1)) \<rparr>"

definition ping_frame :: "keepalive \<Rightarrow> entropy \<Rightarrow> wsmessage" where
  "ping_frame k e = REQUEST (verb (ping k e)) (path (ping k e)) (body (ping k e)) (req_id (ping k e))"

text \<open>The state right after the ping timer of \<open>s\<close> has run, 50 s after the last reset.\<close>

definition after_ping :: "wsr \<Rightarrow> keepalive \<Rightarrow> wsr" where
  "after_ping s k =
     s\<lparr>now := now s + 50000,
       ka := Some (k\<lparr>keepAliveTimer := None, disconnectTimer := Some (now s + 51000)\<rparr>),
       res := (res s)\<lparr>outgoingRequests :=
                (outgoingRequests (res s))(toNumber (req_id (ping k (random s (draws s)))) \<mapsto>
                   ping k (random s (draws s))),
              wire := wire (res s) @ [Sent (ping_frame k (random s (draws s)))]\<rparr>,
       draws := Suc (draws s)\<rparr>"

text \<open>
  The resource as the receiver configures it (\<open>path: '/v1/keepalive', disconnect: true\<close>),
  with a random source that gives the byte 1 always; \<open>opened\<close> is that resource
  connected and open, \<open>pinged\<close> the same after 50 s of silence.
\<close>

definition relay_keepalive :: keepalive where
  "relay_keepalive = KeepAlive (Some ''/v1/keepalive'') (Some True)"

definition relay_resource :: wsr where
  "relay_resource = WebSocketResource (Some (Some ''/v1/keepalive'', Some True)) (\<lambda>_ _. 1)"

definition opened :: wsr where
  "opened = run respond_404 [Connect, SocketOpen] relay_resource"

definition pinged :: wsr where
  "pinged = elapse 50000 opened"

definition relay_ping :: request where
  "relay_ping = ping relay_keepalive (\<lambda>_. 1)"

text \<open>A request of a caller with both callbacks, for the scenarios of the pending table.\<close>

definition caller_options :: options where
  "caller_options =
     \<lparr> opt_verb = Some ''GET'', opt_type = None, opt_path = Some ''/v1/devices'', opt_url = None,
       opt_body = None, opt_data = None, opt_success = Some (Function 0),
       opt_error = Some (Function 1), opt_id = None \<rparr>"

section \<open>Properties of unpad\<close>

lemma unpad_loop_zeros: "n \<le> k \<Longrightarrow> unpad_loop (replicate k 0) n = Inr None"
  by (induction n) simp_all

lemma unpad_loop_sentinel:
  "j \<le> k \<Longrightarrow> unpad_loop (p @ 0x80 # replicate k 0) (Suc (length p + j)) = Inr (Some p)"
proof (induction j)
  case 0
  then show ?case by simp
next
  case (Suc j)
  then have "(p @ 0x80 # replicate k 0) ! Suc (length p + j) = (0 :: byte)"
    by (simp add: nth_append)
  with Suc show ?case by simp
qed

lemma unpad_loop_bad_byte:
  assumes "b \<noteq> 0" and "b \<noteq> 0x80" and "j \<le> k"
  shows "unpad_loop (p @ b # replicate k 0) (Suc (length p + j)) = Inl (Error ''Invalid padding'')"
  using assms(3)
proof (induction j)
  case 0
  with assms(1,2) show ?case by simp
next
  case (Suc j)
  then have "(p @ b # replicate k 0) ! Suc (length p + j) = (0 :: byte)"
    by (simp add: nth_append)
  with Suc show ?case by simp
qed

text \<open>
  The part of the scan that does throw: when the first non-zero byte from the tail is not
  \<open>0x80\<close>, \<open>unpad\<close> fails with \<open>Invalid padding\<close>.
\<close>

lemma unpad_bad_byte:
  "b \<noteq> 0 \<Longrightarrow> b \<noteq> 0x80 \<Longrightarrow> unpad (p @ b # replicate k 0) = Inl (Error ''Invalid padding'')"
  using unpad_loop_bad_byte [of b k k p] by (simp add: unpad_def)

text \<open>
  C3. \<open>unpad\<close> is claimed to fail with InvalidPadding on every input without a
  \<open>0x80\<close> sentinel, the empty input and the inputs of zero bytes only included. On
  those inputs the loop of the source runs off the front of the array without throwing,
  and \<open>unpad\<close> returns \<open>undefined\<close>: for every \<open>k\<close>, also \<open>k = 0\<close>, the result on
  \<open>k\<close> zero bytes is a normal return of no buffer.
\<close>

theorem unpad_all_zero_returns_undefined: "unpad (replicate k 0) = Inr None"
  by (simp add: unpad_def unpad_loop_zeros)

text \<open>
  C4. Unpadding is a right inverse of padding: for every plaintext and every \<open>k\<close>,
  \<open>unpad\<close> of the plaintext followed by \<open>0x80\<close> and \<open>k\<close> zero bytes returns exactly
  the plaintext.
\<close>

theorem unpad_pad_inverse: "unpad (plaintext @ 0x80 # replicate k 0) = Inr (Some plaintext)"
  using unpad_loop_sentinel [of k k plaintext] by (simp add: unpad_def)

section \<open>Properties of the request id\<close>

lemma fresh_id_value: "fresh_id src = Inr (Long (ucast (src 0)) (ucast (src 1)))"
  by (simp add: fresh_id_def Uint32Array_set_def randomBytes_def Let_def numeral_2_eq_2)

lemma high_bits: "(0xFFFFFF00FFFFFF00 :: 64 word) = push_bit 40 (mask 24) OR push_bit 8 (mask 24)"
  by (simp add: mask_eq_exp_minus_1)

lemma Long_of_bytes: "Long (ucast (a :: byte)) (ucast (b :: byte)) AND 0xFFFFFF00FFFFFF00 = 0"
  unfolding Long_def high_bits
  by (rule bit_word_eqI) (auto simp: bit_simps dest: bit_imp_le_length)

text \<open>With both random bytes at their largest value the id is \<open>0x000000FF000000FF\<close>.\<close>

lemma fresh_id_max_entropy: "fresh_id (\<lambda>_. 0xFF) = Inr 0x000000FF000000FF"
  by (simp add: fresh_id_value Long_def)

text \<open>
  C5. The id of a request made without a caller-supplied id is claimed to take all of
  its 64 bits from fresh random bytes. The constructor asks for \<open>ints.length = 2\<close>
  random bytes, not 8, and stores one byte in each 32-bit half: whatever the random
  source gives, the id is made of its first two bytes, and the 48 bits of the id
  outside \<open>0x000000FF000000FF\<close> are zero.
\<close>

theorem fresh_id_two_random_bytes:
  "\<exists>i. fresh_id src = Inr i \<and> i = Long (ucast (src 0)) (ucast (src 1)) \<and>
       i AND 0xFFFFFF00FFFFFF00 = 0"
  by (simp add: fresh_id_value Long_of_bytes)

section \<open>Properties of the timers\<close>

lemma elapse_add: "elapse (a + b) s = elapse b (elapse a s)"
  by (induction a arbitrary: s) simp_all

lemma due_mono: "due t n \<Longrightarrow> n \<le> m \<Longrightarrow> due t m"
  by (cases t) (simp_all add: due_def)

lemma tick_quiet:
  "\<not> due (Option.bind (ka s) keepAliveTimer) (Suc (now s)) \<Longrightarrow>
   \<not> due (Option.bind (ka s) disconnectTimer) (Suc (now s)) \<Longrightarrow>
   tick s = s\<lparr>now := Suc (now s)\<rparr>"
  by (simp add: tick_def Let_def)

text \<open>While no timer is due, time passing changes the clock only.\<close>

lemma elapse_quiet:
  "\<not> due (Option.bind (ka s) keepAliveTimer) (now s + d) \<Longrightarrow>
   \<not> due (Option.bind (ka s) disconnectTimer) (now s + d) \<Longrightarrow>
   elapse d s = s\<lparr>now := now s + d\<rparr>"
proof (induction d arbitrary: s)
  case 0
  then show ?case by simp
next
  case (Suc d)
  have q1: "\<not> due (Option.bind (ka s) keepAliveTimer) (Suc (now s))"
    using Suc.prems(1) due_mono [of _ "Suc (now s)" "now s + Suc d"] by auto
  have q2: "\<not> due (Option.bind (ka s) disconnectTimer) (Suc (now s))"
    using Suc.prems(2) due_mono [of _ "Suc (now s)" "now s + Suc d"] by auto
  have t: "tick s = s\<lparr>now := Suc (now s)\<rparr>"
    using q1 q2 by (rule tick_quiet)
  have "elapse d (tick s) = (tick s)\<lparr>now := now (tick s) + d\<rparr>"
    using Suc.prems by (intro Suc.IH) (simp_all add: t)
  then show ?case by (simp add: t)
qed

lemma Request_ping: "Request e (ping_options k) = Inr (ping k e)"
  by (simp add: Request_def ping_options_def fresh_id_value ping_def or_bytes_def or_string_def)

lemma keepAliveTimer_fired_open:
  assumes "ka s = Some k" "disconnect k" "socket (res s) = Some OPEN"
  shows "keepAliveTimer_fired s =
    s\<lparr>ka := Some (k\<lparr>keepAliveTimer := None, disconnectTimer := Some (now s + 1000)\<rparr>),
      res := (res s)\<lparr>outgoingRequests :=
                (outgoingRequests (res s))(toNumber (req_id (ping k (random s (draws s)))) \<mapsto>
                   ping k (random s (draws s))),
              wire := wire (res s) @ [Sent (ping_frame k (random s (draws s)))]\<rparr>,
      draws := Suc (draws s)\<rparr>"
  using assms
  by (simp add: keepAliveTimer_fired_def wsr_sendRequest_def sendRequest_def Request_ping
      send_def socket_send_def Let_def ping_frame_def)

lemma elapse_before_ping:
  assumes "ka s = Some k" "keepAliveTimer k = Some (now s + 50000)" "disconnectTimer k = None"
    and "d < 50000"
  shows "elapse d s = s\<lparr>now := now s + d\<rparr>"
  using assms by (intro elapse_quiet) (simp_all add: due_def)

lemma elapse_to_ping:
  assumes "ka s = Some k" "keepAliveTimer k = Some (now s + 50000)" "disconnectTimer k = None"
    and "disconnect k" "socket (res s) = Some OPEN"
  shows "elapse 50000 s = after_ping s k"
proof -
  have a: "elapse 49999 s = s\<lparr>now := now s + 49999\<rparr>"
    using assms(1-3) by (rule elapse_before_ping) simp
  have b: "tick (s\<lparr>now := now s + 49999\<rparr>) = keepAliveTimer_fired (s\<lparr>now := now s + 50000\<rparr>)"
    using assms(1-3)
    by (simp add: tick_def Let_def due_def keepAliveTimer_fired_open [OF _ assms(4)] assms(5))
  have c: "keepAliveTimer_fired (s\<lparr>now := now s + 50000\<rparr>) = after_ping s k"
    using assms by (simp add: keepAliveTimer_fired_open after_ping_def)
  have "elapse (49999 + Suc 0) s = elapse (Suc 0) (elapse 49999 s)"
    by (rule elapse_add)
  then have "elapse 50000 s = tick (elapse 49999 s)" by simp
  with a b c show ?thesis by simp
qed

lemma elapse_awaiting_ack:
  assumes "ka s = Some k" "keepAliveTimer k = None" "disconnectTimer k = Some (now s + 1000)"
    and "d < 1000"
  shows "elapse d s = s\<lparr>now := now s + d\<rparr>"
  using assms by (intro elapse_quiet) (simp_all add: due_def)

lemma elapse_to_disconnect:
  assumes "ka s = Some k" "keepAliveTimer k = None" "disconnectTimer k = Some (now s + 1000)"
  shows "elapse 1000 s =
    s\<lparr>now := now s + 1000, ka := Some (k\<lparr>keepAliveTimer := None, disconnectTimer := None\<rparr>),
      res := close (Some 3001) (Some ''No response to keepalive request'') (res s)\<rparr>"
proof -
  have a: "elapse 999 s = s\<lparr>now := now s + 999\<rparr>"
    using assms(1-3) by (rule elapse_awaiting_ack) simp
  have b: "tick (s\<lparr>now := now s + 999\<rparr>) = disconnectTimer_fired (s\<lparr>now := now s + 1000\<rparr>)"
    using assms(1-3) by (simp add: tick_def Let_def due_def add.commute)
  have "elapse (999 + Suc 0) s = elapse (Suc 0) (elapse 999 s)"
    by (rule elapse_add)
  then have "elapse 1000 s = tick (elapse 999 s)" by simp
  with a b show ?thesis using assms by (simp add: disconnectTimer_fired_def)
qed

lemma onMessage_now: "now (snd (onMessage h m s)) = now s"
  by (auto simp: onMessage_def reset_def Let_def
      split: sum.splits wsmessage.splits option.splits callback.splits prod.splits)

text \<open>
  Whatever the frame and whatever \<open>onMessage\<close> did with it, the keep-alive's own
  \<open>message\<close> listener leaves the timers as a reset of the state before the frame does.
\<close>

lemma onMessage_ka: "ka (reset (snd (onMessage h m s))) = ka (reset s)"
  by (cases "ka s")
     (auto simp: onMessage_def reset_def Let_def
      split: sum.splits wsmessage.splits option.splits callback.splits prod.splits)

lemma reset_facts:
  "ka s = Some k \<Longrightarrow>
     ka (reset s) = Some (k\<lparr>keepAliveTimer := Some (now s + 50000), disconnectTimer := None\<rparr>)"
  "res (reset s) = res s" "now (reset s) = now s" "random (reset s) = random s"
  "draws (reset s) = draws s"
  by (simp_all add: reset_def)

lemma after_ping_facts:
  "wire (res (after_ping s k)) = wire (res s) @ [Sent (ping_frame k (random s (draws s)))]"
  "socket (res (after_ping s k)) = socket (res s)"
  "ka (after_ping s k) = Some (k\<lparr>keepAliveTimer := None, disconnectTimer := Some (now s + 51000)\<rparr>)"
  "now (after_ping s k) = now s + 50000"
  by (simp_all add: after_ping_def)

lemma step_message_ka: "ka (step h (SocketMessage m) s) = ka (reset s)"
  by (simp add: onMessage_ka)

lemma step_message_now: "now (step h (SocketMessage m) s) = now s"
  by (simp add: onMessage_now reset_def)

lemma elapse_after_reset_quiet:
  assumes "ka s = Some k" "keepAliveTimer k = Some (now s + 50000)" "disconnectTimer k = None"
    and "e < 50000"
  shows "wire (res (elapse e s)) = wire (res s)"
  using elapse_before_ping [OF assms] by simp

text \<open>
  C7. With keep-alive enabled, \<open>disconnect = true\<close> and the socket open: from a reset
  (which \<open>open\<close> and every inbound frame run) nothing is sent for less than 50 s; at
  50 s exactly one frame is sent, the \<open>GET\<close> on the configured path; for less than one
  more second nothing else happens and the socket stays open; at 51 s, no frame having
  arrived, the socket is closed with code 3001 and reason "No response to keepalive
  request". An inbound frame \<open>m\<close> of any kind within that second (a 2xx response to the
  ping is one) cancels the disconnect timer and re-arms the ping timer 50 s ahead, and
  nothing is sent or closed by the timers for less than 50 s after it.
\<close>

theorem keepalive_ping_then_disconnect:
  assumes "ka s = Some k" and "disconnect k" and "socket (res s) = Some OPEN"
  shows "(d < 50000 \<longrightarrow> wire (res (elapse d (reset s))) = wire (res s)) \<and>
    wire (res (elapse 50000 (reset s))) = wire (res s) @ [Sent (ping_frame k (random s (draws s)))] \<and>
    (d < 1000 \<longrightarrow>
       wire (res (elapse (50000 + d) (reset s))) =
         wire (res s) @ [Sent (ping_frame k (random s (draws s)))] \<and>
       socket (res (elapse (50000 + d) (reset s))) = Some OPEN) \<and>
    wire (res (elapse 51000 (reset s))) =
       wire (res s) @ [Sent (ping_frame k (random s (draws s))),
                       SocketClosed 3001 (Some ''No response to keepalive request'')] \<and>
    socket (res (elapse 51000 (reset s))) = None \<and>
    (d < 1000 \<longrightarrow>
       ka (step h (SocketMessage m) (elapse (50000 + d) (reset s))) =
         Some (k\<lparr>keepAliveTimer := Some (now s + 50000 + d + 50000), disconnectTimer := None\<rparr>)) \<and>
    (d < 1000 \<and> e < 50000 \<longrightarrow>
       wire (res (elapse e (step h (SocketMessage m) (elapse (50000 + d) (reset s))))) =
       wire (res (step h (SocketMessage m) (elapse (50000 + d) (reset s)))))"
proof -
  let ?k0 = "k\<lparr>keepAliveTimer := Some (now s + 50000), disconnectTimer := None\<rparr>"
  let ?k1 = "?k0\<lparr>keepAliveTimer := None, disconnectTimer := Some (now s + 51000)\<rparr>"
  let ?p = "after_ping (reset s) ?k0"
  have k0: "ka (reset s) = Some ?k0" "keepAliveTimer ?k0 = Some (now (reset s) + 50000)"
    "disconnectTimer ?k0 = None" "disconnect ?k0" "socket (res (reset s)) = Some OPEN"
    using assms by (simp_all add: reset_facts)
  have quiet: "elapse d (reset s) = (reset s)\<lparr>now := now (reset s) + d\<rparr>" if "d < 50000" for d
    using k0(1-3) that by (rule elapse_before_ping)
  have pinged: "elapse 50000 (reset s) = ?p"
    using k0 by (rule elapse_to_ping)
  have k1: "ka ?p = Some ?k1" "keepAliveTimer ?k1 = None" "disconnectTimer ?k1 = Some (now ?p + 1000)"
    by (simp_all add: after_ping_facts reset_facts)
  have await: "elapse (50000 + d) (reset s) = ?p\<lparr>now := now ?p + d\<rparr>" if "d < 1000" for d
    using elapse_awaiting_ack [OF k1 that] by (simp add: elapse_add pinged)
  have closed: "elapse 51000 (reset s) =
      ?p\<lparr>now := now ?p + 1000, ka := Some (?k1\<lparr>keepAliveTimer := None, disconnectTimer := None\<rparr>),
         res := close (Some 3001) (Some ''No response to keepalive request'') (res ?p)\<rparr>"
    using elapse_to_disconnect [OF k1] elapse_add [of 50000 1000 "reset s"] by (simp add: pinged)
  have wp: "wire (res ?p) = wire (res s) @ [Sent (ping_frame k (random s (draws s)))]"
    by (simp add: after_ping_facts reset_facts ping_frame_def ping_def)
  have sp: "socket (res ?p) = Some OPEN"
    using assms by (simp add: after_ping_facts reset_facts)
  have c1: "d < 50000 \<longrightarrow> wire (res (elapse d (reset s))) = wire (res s)"
    using quiet by (simp add: reset_facts)
  have c2: "wire (res (elapse 50000 (reset s))) =
      wire (res s) @ [Sent (ping_frame k (random s (draws s)))]"
    using pinged wp by simp
  have c3: "d < 1000 \<longrightarrow>
       wire (res (elapse (50000 + d) (reset s))) =
         wire (res s) @ [Sent (ping_frame k (random s (draws s)))] \<and>
       socket (res (elapse (50000 + d) (reset s))) = Some OPEN"
    using await wp sp by simp
  have c4: "wire (res (elapse 51000 (reset s))) =
       wire (res s) @ [Sent (ping_frame k (random s (draws s))),
                       SocketClosed 3001 (Some ''No response to keepalive request'')]"
    using wp sp by (simp add: closed close_def)
  have c5: "socket (res (elapse 51000 (reset s))) = None"
    by (simp add: closed close_def Let_def)
  have rearm: "ka (step h (SocketMessage m) (elapse (50000 + d) (reset s))) =
         Some (k\<lparr>keepAliveTimer := Some (now s + 50000 + d + 50000), disconnectTimer := None\<rparr>)"
    if "d < 1000"
  proof -
    let ?w = "?p\<lparr>now := now ?p + d\<rparr>"
    have "ka ?w = Some ?k1" "now ?w = now s + 50000 + d"
      by (simp_all add: after_ping_facts reset_facts)
    then have "ka (reset ?w) =
        Some (k\<lparr>keepAliveTimer := Some (now s + 50000 + d + 50000), disconnectTimer := None\<rparr>)"
      by (simp add: reset_facts)
    then show ?thesis
      unfolding await [OF that] step_message_ka .
  qed
  have c7: "wire (res (elapse e (step h (SocketMessage m) (elapse (50000 + d) (reset s))))) =
       wire (res (step h (SocketMessage m) (elapse (50000 + d) (reset s))))"
    if "d < 1000" "e < 50000"
  proof (rule elapse_after_reset_quiet [OF rearm [OF that(1)] _ _ that(2)])
    show "keepAliveTimer (k\<lparr>keepAliveTimer := Some (now s + 50000 + d + 50000),
                            disconnectTimer := None\<rparr>) =
      Some (now (step h (SocketMessage m) (elapse (50000 + d) (reset s))) + 50000)"
      using await [OF that(1)]
      by (simp add: step_message_now after_ping_facts reset_facts del: step.simps)
  qed simp
  from c1 c2 c3 c4 c5 rearm c7 show ?thesis by blast
qed

section \<open>The keep-alive scenarios, computed\<close>

lemma opened_value:
  "opened = \<lparr> res = \<lparr> socket = Some OPEN, outgoingRequests = Map.empty, wire = [], calls = [] \<rparr>,
       ka = Some (relay_keepalive\<lparr>keepAliveTimer := Some 50000\<rparr>),
       now = 0, random = (\<lambda>_ _. 1), draws = 0 \<rparr>"
  by (simp add: opened_def relay_resource_def WebSocketResource_def connect_def close_def
      reset_def KeepAlive_def relay_keepalive_def)

lemma opened_run: "run h (Connect # SocketOpen # es) relay_resource = run h es opened"
  by (simp add: opened_def)

lemma opened_ka:
  "ka opened = Some (relay_keepalive\<lparr>keepAliveTimer := Some 50000\<rparr>)"
  "keepAliveTimer (relay_keepalive\<lparr>keepAliveTimer := Some 50000\<rparr>) = Some (now opened + 50000)"
  "disconnectTimer (relay_keepalive\<lparr>keepAliveTimer := Some 50000\<rparr>) = None"
  "disconnect (relay_keepalive\<lparr>keepAliveTimer := Some 50000\<rparr>)"
  "socket (res opened) = Some OPEN"
  by (simp_all add: opened_value relay_keepalive_def KeepAlive_def)

lemma Long_1_1: "Long 1 1 = 4294967297"
  by (simp add: Long_def)

lemma round_double_exact: "n < 2 ^ 53 \<Longrightarrow> round_double n = n"
  by (simp add: round_double_def excess_bits.simps [of n])

lemma toNumber_ping: "toNumber (4294967297 :: 64 word) = 4294967297"
  by (simp add: toNumber_def round_double_exact)

lemma relay_ping_value:
  "relay_ping = \<lparr> verb = Some ''GET'', path = Some ''/v1/keepalive'', body = None,
                  success = Some KeepAlive_reset, error = None, req_id = 4294967297 \<rparr>"
  by (simp add: relay_ping_def ping_def relay_keepalive_def KeepAlive_def Long_1_1)

lemma pinged_value:
  "pinged = \<lparr> res = \<lparr> socket = Some OPEN, outgoingRequests = [4294967297 \<mapsto> relay_ping],
                       wire = [Sent (REQUEST (Some ''GET'') (Some ''/v1/keepalive'') None 4294967297)],
                       calls = [] \<rparr>,
       ka = Some (relay_keepalive\<lparr>disconnectTimer := Some 51000\<rparr>),
       now = 50000, random = (\<lambda>_ _. 1), draws = Suc 0 \<rparr>"
  unfolding pinged_def elapse_to_ping [OF opened_ka]
  by (simp add: after_ping_def opened_value ping_frame_def ping_def relay_keepalive_def
      KeepAlive_def Long_1_1 toNumber_ping relay_ping_def)

lemma pinged_wait:
  assumes "d < 1000"
  shows "elapse d pinged = pinged\<lparr>now := 50000 + d\<rparr>"
proof -
  have "elapse d pinged = pinged\<lparr>now := now pinged + d\<rparr>"
    by (rule elapse_awaiting_ack [OF _ _ _ assms,
          where k = "relay_keepalive\<lparr>disconnectTimer := Some 51000\<rparr>"])
       (simp_all add: pinged_value relay_keepalive_def KeepAlive_def)
  then show ?thesis by (simp add: pinged_value)
qed

lemma quiet_after_message:
  assumes "ka s = Some (relay_keepalive\<lparr>keepAliveTimer := Some (now s + 50000)\<rparr>)" "d < 50000"
  shows "elapse d s = s\<lparr>now := now s + d\<rparr>"
  by (rule elapse_before_ping [OF assms(1) _ _ assms(2)])
     (simp_all add: relay_keepalive_def KeepAlive_def)

text \<open>
  C7, as stated, fails: the ping is sent at 50 s; half a second later the relay delivers
  a request (no 2xx response ever arrives); at 51 s the socket is still open and nothing
  was closed, because the request reset the keep-alive.
\<close>

theorem keepalive_inbound_request_counterexample:
  "socket (res (run respond_404
      [Connect, SocketOpen, Elapse 50000, Elapse 500,
       SocketMessage (Inr (REQUEST (Some ''PUT'') (Some ''/messages'') (Some []) 9)),
       Elapse 500] relay_resource)) = Some OPEN \<and>
   wire (res (run respond_404
      [Connect, SocketOpen, Elapse 50000, Elapse 500,
       SocketMessage (Inr (REQUEST (Some ''PUT'') (Some ''/messages'') (Some []) 9)),
       Elapse 500] relay_resource)) =
     [Sent (REQUEST (Some ''GET'') (Some ''/v1/keepalive'') None 4294967297),
      Sent (RESPONSE 9 404 ''Not found'')]"
proof -
  let ?m = "SocketMessage (Inr (REQUEST (Some ''PUT'') (Some ''/messages'') (Some []) 9))"
  let ?t = "\<lparr> res = \<lparr> socket = Some OPEN, outgoingRequests = [4294967297 \<mapsto> relay_ping],
                       wire = [Sent (REQUEST (Some ''GET'') (Some ''/v1/keepalive'') None 4294967297),
                               Sent (RESPONSE 9 404 ''Not found'')],
                       calls = [] \<rparr>,
       ka = Some (relay_keepalive\<lparr>keepAliveTimer := Some 100500\<rparr>),
       now = 50500, random = (\<lambda>_ _. 1), draws = Suc 0 \<rparr>"
  have s: "step respond_404 ?m (pinged\<lparr>now := 50500\<rparr>) = ?t"
    by (simp add: onMessage_def Request_def incoming_options_def respond_404_def respond_def
        socket_send_def pinged_value reset_def or_string_def or_bytes_def relay_keepalive_def
        KeepAlive_def)
  have e: "elapse 500 ?t = ?t\<lparr>now := now ?t + 500\<rparr>"
    by (rule quiet_after_message) simp_all
  have "run respond_404 [Connect, SocketOpen, Elapse 50000, Elapse 500, ?m, Elapse 500] relay_resource
      = elapse 500 (step respond_404 ?m (pinged\<lparr>now := 50500\<rparr>))"
    by (subst opened_run) (simp add: pinged_def [symmetric] pinged_wait del: step.simps(5))
  then show ?thesis unfolding s e by simp
qed

text \<open>
  The theorem of C7 at the receiver's resource, open, with \<open>d = 500\<close>, \<open>e = 100\<close> and
  the frame a 200 response to the ping.
\<close>

theorem keepalive_ping_then_disconnect_witness:
  "ka opened = Some (relay_keepalive\<lparr>keepAliveTimer := Some 50000\<rparr>) \<and>
   disconnect (relay_keepalive\<lparr>keepAliveTimer := Some 50000\<rparr>) \<and>
   socket (res opened) = Some OPEN \<and>
   wire (res (elapse 500 (reset opened))) = [] \<and>
   wire (res (elapse 50000 (reset opened))) =
     [Sent (REQUEST (Some ''GET'') (Some ''/v1/keepalive'') None 4294967297)] \<and>
   wire (res (elapse 51000 (reset opened))) =
     [Sent (REQUEST (Some ''GET'') (Some ''/v1/keepalive'') None 4294967297),
      SocketClosed 3001 (Some ''No response to keepalive request'')] \<and>
   socket (res (elapse 51000 (reset opened))) = None \<and>
   ka (step respond_404 (SocketMessage (Inr (RESPONSE 4294967297 200 ''OK'')))
         (elapse (50000 + 500) (reset opened))) =
     Some (relay_keepalive\<lparr>keepAliveTimer := Some 100500\<rparr>)"
  using keepalive_ping_then_disconnect [OF opened_ka(1) opened_ka(4) opened_ka(5),
      of 500 respond_404 "Inr (RESPONSE 4294967297 200 ''OK'')" 100]
  by (simp add: opened_value ping_frame_def ping_def relay_keepalive_def KeepAlive_def Long_1_1
      del: step.simps)

section \<open>Responses to the ping that are not 2xx\<close>

text \<open>
  C10, as stated, fails: the ping is sent at 50 s, the relay answers it with status 500,
  and one second after the ping the socket is still open and was never closed.
\<close>

theorem keepalive_non_2xx_counterexample:
  "socket (res (run respond_404
      [Connect, SocketOpen, Elapse 50000,
       SocketMessage (Inr (RESPONSE 4294967297 500 ''Internal error'')),
       Elapse 1000] relay_resource)) = Some OPEN \<and>
   wire (res (run respond_404
      [Connect, SocketOpen, Elapse 50000,
       SocketMessage (Inr (RESPONSE 4294967297 500 ''Internal error'')),
       Elapse 1000] relay_resource)) =
     [Sent (REQUEST (Some ''GET'') (Some ''/v1/keepalive'') None 4294967297)]"
proof -
  let ?m = "SocketMessage (Inr (RESPONSE 4294967297 500 ''Internal error''))"
  let ?t = "\<lparr> res = \<lparr> socket = Some OPEN, outgoingRequests = Map.empty,
                       wire = [Sent (REQUEST (Some ''GET'') (Some ''/v1/keepalive'') None 4294967297)],
                       calls = [] \<rparr>,
       ka = Some (relay_keepalive\<lparr>keepAliveTimer := Some 100000\<rparr>),
       now = 50000, random = (\<lambda>_ _. 1), draws = Suc 0 \<rparr>"
  have s: "step respond_404 ?m pinged = ?t"
    by (simp add: onMessage_def pinged_value reset_def relay_keepalive_def KeepAlive_def
        toNumber_ping relay_ping_value)
  have e: "elapse 1000 ?t = ?t\<lparr>now := now ?t + 1000\<rparr>"
    by (rule quiet_after_message) simp_all
  have "run respond_404 [Connect, SocketOpen, Elapse 50000, ?m, Elapse 1000] relay_resource
      = elapse 1000 (step respond_404 ?m pinged)"
    by (subst opened_run) (simp add: pinged_def [symmetric] del: step.simps(5))
  then show ?thesis unfolding s e by simp
qed

text \<open>
  C10, amended. While the disconnect timer is pending, a response to the ping with a
  status outside [200, 300) removes the ping from the table and runs no callback:
  \<open>onMessage\<close> itself leaves the timers alone. The keep-alive's own \<open>message\<close>
  listener then resets the keep-alive as it does on every inbound frame: the disconnect
  timer is cancelled, the ping timer is set 50 s ahead, and for less than 50 s after the
  response nothing is sent and the socket is not closed.
\<close>

theorem non_2xx_response_resets_keepalive:
  assumes "ka s = Some k" and "keepAliveTimer k = None" and "disconnectTimer k = Some t"
    and "outgoingRequests (res s) (toNumber i) = Some req"
    and "success req = Some KeepAlive_reset" and "error req = None"
    and "\<not> (200 \<le> status \<and> status < 300)"
  shows "onMessage h (Inr (RESPONSE i status message)) s =
           (None, s\<lparr>res := (res s)\<lparr>outgoingRequests := (outgoingRequests (res s))(toNumber i := None)\<rparr>\<rparr>) \<and>
         ka (step h (SocketMessage (Inr (RESPONSE i status message))) s) =
           Some (k\<lparr>keepAliveTimer := Some (now s + 50000), disconnectTimer := None\<rparr>) \<and>
         (e < 50000 \<longrightarrow>
            wire (res (elapse e (step h (SocketMessage (Inr (RESPONSE i status message))) s))) =
              wire (res s) \<and>
            socket (res (elapse e (step h (SocketMessage (Inr (RESPONSE i status message))) s))) =
              socket (res s))"
proof -
  let ?m = "Inr (RESPONSE i status message)"
  let ?s' = "s\<lparr>res := (res s)\<lparr>outgoingRequests := (outgoingRequests (res s))(toNumber i := None)\<rparr>\<rparr>"
  have om: "onMessage h ?m s = (None, ?s')"
    using assms(4,6,7) by (auto simp: onMessage_def Let_def)
  have st: "step h (SocketMessage ?m) s = reset ?s'"
    by (simp add: om)
  have k': "ka (reset ?s') = Some (k\<lparr>keepAliveTimer := Some (now s + 50000), disconnectTimer := None\<rparr>)"
    using assms(1) by (simp add: reset_def)
  have q: "elapse e (reset ?s') = (reset ?s')\<lparr>now := now (reset ?s') + e\<rparr>" if "e < 50000"
    by (rule elapse_before_ping [OF k' _ _ that]) (simp_all add: reset_def)
  show ?thesis
    unfolding st using om k' q by (simp add: reset_def)
qed

theorem non_2xx_response_resets_keepalive_witness:
  "ka pinged = Some (relay_keepalive\<lparr>disconnectTimer := Some 51000\<rparr>) \<and>
   keepAliveTimer (relay_keepalive\<lparr>disconnectTimer := Some 51000\<rparr>) = None \<and>
   outgoingRequests (res pinged) (toNumber 4294967297) = Some relay_ping \<and>
   success relay_ping = Some KeepAlive_reset \<and> error relay_ping = None \<and>
   \<not> (200 \<le> (503 :: nat) \<and> (503 :: nat) < 300) \<and>
   ka (step respond_404 (SocketMessage (Inr (RESPONSE 4294967297 503 ''Unavailable''))) pinged) =
     Some (relay_keepalive\<lparr>keepAliveTimer := Some 100000\<rparr>) \<and>
   socket (res (elapse 1000
      (step respond_404 (SocketMessage (Inr (RESPONSE 4294967297 503 ''Unavailable''))) pinged))) =
     Some OPEN"
proof -
  have h: "ka pinged = Some (relay_keepalive\<lparr>disconnectTimer := Some 51000\<rparr>)"
    "keepAliveTimer (relay_keepalive\<lparr>disconnectTimer := Some 51000\<rparr>) = None"
    "disconnectTimer (relay_keepalive\<lparr>disconnectTimer := Some 51000\<rparr>) = Some 51000"
    "outgoingRequests (res pinged) (toNumber 4294967297) = Some relay_ping"
    "success relay_ping = Some KeepAlive_reset" "error relay_ping = None"
    "\<not> (200 \<le> (503 :: nat) \<and> (503 :: nat) < 300)"
    by (simp_all add: pinged_value relay_keepalive_def KeepAlive_def toNumber_ping relay_ping_value)
  show ?thesis
    using non_2xx_response_resets_keepalive [OF h, of respond_404 "''Unavailable''" 1000] h
    by (simp add: pinged_value relay_keepalive_def KeepAlive_def del: step.simps)
qed

section \<open>The pending table when the connection closes\<close>

text \<open>
  C6, as stated, fails: a caller's request with a success and an error callback is
  pending when the caller closes the resource and the socket reports its close; the
  request is still in the table afterwards and neither callback has run.
\<close>

theorem close_pending_request_counterexample:
  "outgoingRequests (res (run respond_404
      [Connect, SocketOpen, SendRequest caller_options, Close (Some 3000) (Some ''called close''),
       SocketClose] relay_resource)) 4294967297 \<noteq> None \<and>
   calls (res (run respond_404
      [Connect, SocketOpen, SendRequest caller_options, Close (Some 3000) (Some ''called close''),
       SocketClose] relay_resource)) = []"
  by (subst opened_run, subst opened_run)
     (simp add: opened_value wsr_sendRequest_def sendRequest_def Request_def caller_options_def
      fresh_id_value Long_1_1 toNumber_ping send_def socket_send_def close_def stop_def Let_def)

text \<open>
  C6, amended. Closing leaves the pending-request table and the callbacks alone: neither
  \<open>close(code, reason)\<close>, nor the socket's \<open>close\<close> event, nor the disconnect of the
  keep-alive changes \<open>outgoingRequests\<close> or runs a callback of a pending request.
\<close>

theorem close_keeps_pending_requests:
  "outgoingRequests (res (step h (Close code reason) s)) = outgoingRequests (res s) \<and>
   calls (res (step h (Close code reason) s)) = calls (res s) \<and>
   outgoingRequests (res (step h SocketClose s)) = outgoingRequests (res s) \<and>
   calls (res (step h SocketClose s)) = calls (res s) \<and>
   outgoingRequests (res (disconnectTimer_fired s)) = outgoingRequests (res s) \<and>
   calls (res (disconnectTimer_fired s)) = calls (res s)"
proof -
  have c: "outgoingRequests (close code' reason' r) = outgoingRequests r \<and>
           calls (close code' reason' r) = calls r" for code' reason' r
    by (simp add: close_def Let_def split: option.splits)
  show ?thesis
    using c by (simp add: stop_def disconnectTimer_fired_def)
qed

section \<open>Requests of the relay\<close>

lemma open_receiver_value:
  "open_receiver =
     \<lparr> core = \<lparr> number = ''+15550000000'', deviceId = 2, signalingKey = [], blocked = [],
                groups = Map.empty, closed = [], dispatched = [] \<rparr>,
       wsr_res = \<lparr> socket = Some OPEN, outgoingRequests = Map.empty, wire = [], calls = [] \<rparr>,
       promises = [Fulfilled], reactions = [], inflight = [], pending = 0, trace = [] \<rparr>"
  by (simp add: open_receiver_def MessageReceiver_def)

text \<open>
  C1, as stated, fails: the signaling-key decryption of the request succeeds, the
  plaintext does not decode as an envelope, and the one response is 500, not 200.
\<close>

theorem handleRequest_decode_failure_counterexample:
  "decryptWebsocketMessage garbled_world (body put_messages) (signalingKey (core open_receiver)) =
     Inr [10] \<and>
   wire (wsr_res (handleRequest garbled_world put_messages open_receiver)) =
     [Sent (RESPONSE 7 500 ''Bad encrypted websocket message'')]"
  by (simp add: handleRequest_def handleRequest_catch_def garbled_world_def hello_world_def
      put_messages_def open_receiver_value respond_def socket_send_def)

text \<open>
  C1, amended. While the resource has an open socket, every request handled produces
  exactly one response. When the signaling-key decryption succeeds and the plaintext
  decodes as an envelope, the response is 200 "OK", no event is dispatched and the
  envelope is queued at the end of the chain; when either fails, the response is 500
  "Bad encrypted websocket message", an \<open>error\<close> event with the failure is dispatched
  and nothing is queued.
\<close>

theorem handleRequest_responds_once:
  assumes "socket (wsr_res m) = Some OPEN"
  shows "case envelope_of w req m of
           Inr envelope \<Rightarrow>
             wire (wsr_res (handleRequest w req m)) =
               wire (wsr_res m) @ [Sent (RESPONSE (req_id req) 200 ''OK'')] \<and>
             dispatched (core (handleRequest w req m)) = dispatched (core m) \<and>
             reactions (handleRequest w req m) =
               reactions m @ [(pending m, length (promises m), envelope)]
         | Inl e \<Rightarrow>
             wire (wsr_res (handleRequest w req m)) =
               wire (wsr_res m) @ [Sent (RESPONSE (req_id req) 500 ''Bad encrypted websocket message'')] \<and>
             dispatched (core (handleRequest w req m)) = dispatched (core m) @ [ErrorEvent e None] \<and>
             reactions (handleRequest w req m) = reactions m"
  using assms
  by (auto simp: envelope_of_def handleRequest_def handleRequest_catch_def respond_def
      socket_send_def isBlocked_def queueEnvelope_def dispatchEvent_def Let_def
      split: sum.splits)

theorem handleRequest_responds_once_witness:
  "socket (wsr_res open_receiver) = Some OPEN \<and>
   wire (wsr_res (handleRequest hello_world put_messages open_receiver)) =
     [Sent (RESPONSE 7 200 ''OK'')] \<and>
   dispatched (core (handleRequest hello_world put_messages open_receiver)) = [] \<and>
   reactions (handleRequest hello_world put_messages open_receiver) = [(0, 1, hello_envelope)]"
proof -
  have h: "socket (wsr_res open_receiver) = Some OPEN"
    by (simp add: open_receiver_value)
  have e: "envelope_of hello_world put_messages open_receiver = Inr hello_envelope"
    by (simp add: envelope_of_def hello_world_def)
  show ?thesis
    using handleRequest_responds_once [OF h, of hello_world put_messages] h
    by (simp add: e) (simp add: open_receiver_value put_messages_def)
qed

section \<open>Blocked senders\<close>

lemma unpad_hello: "unpad [104, 101, 108, 108, 111, 0x80] = Inr (Some [104, 101, 108, 108, 111])"
  using unpad_loop_sentinel [of 0 0 "[104, 101, 108, 108, 111]"] by (simp add: unpad_def)

lemma handleEnvelope_hello:
  "handleEnvelope hello_world hello_envelope r =
     (None, dispatchEvent (MessageEvent alice 1000
        (hello_message\<lparr>dm_flags := Some 0, dm_expireTimer := Some 0\<rparr>)) r)"
  by (simp add: handleEnvelope_def handleContentMessage_def decrypt_def hello_world_def
      hello_envelope_def unpad_hello handleDataMessage_def has_END_SESSION_def hello_message_def
      processDecrypted_def processDecrypted_promises_def Let_def)

lemma run_handler_core:
  "core (run_handler w q envelope m) = snd (handleEnvelope w envelope (core m))"
  by (simp add: run_handler_def settle_def split: prod.splits)

text \<open>
  C8. An envelope from a sender in the stored blocked list is claimed to be dropped
  after the 200. \<open>isBlocked\<close> is a stub that returns \<open>false\<close>: with the sender in
  the stored list, her envelope is queued all the same, and when the queue runs her
  message is dispatched as a \<open>message\<close> event.
\<close>

theorem blocked_sender_is_queued:
  "alice \<in> set (blocked (core blocking_receiver)) \<and>
   wire (wsr_res (handleRequest hello_world put_messages blocking_receiver)) =
     [Sent (RESPONSE 7 200 ''OK'')] \<and>
   reactions (handleRequest hello_world put_messages blocking_receiver) = [(0, 1, hello_envelope)] \<and>
   dispatched (core (exec [(hello_world, Deliver put_messages), (hello_world, RunNext),
                           (hello_world, Complete 1)] blocking_receiver)) =
     [MessageEvent alice 1000 (hello_message\<lparr>dm_flags := Some 0, dm_expireTimer := Some 0\<rparr>)]"
proof -
  let ?c = "\<lparr> number = ''+15550000000'', deviceId = 2, signalingKey = [], blocked = [alice],
              groups = Map.empty, closed = [], dispatched = [] \<rparr>"
  let ?m1 = "\<lparr> core = ?c,
       wsr_res = \<lparr> socket = Some OPEN, outgoingRequests = Map.empty,
                   wire = [Sent (RESPONSE 7 200 ''OK'')], calls = [] \<rparr>,
       promises = [Fulfilled, Pending], reactions = [(0, 1, hello_envelope)], inflight = [],
       pending = 1, trace = [Queued 1] \<rparr>"
  let ?m2 = "?m1\<lparr>reactions := [], inflight := [(1, hello_envelope)],
                trace := [Queued 1, Started 1]\<rparr>"
  have b: "blocked (core blocking_receiver) = [alice]"
    by (simp add: blocking_receiver_def handleBlocked_def)
  have s1: "handleRequest hello_world put_messages blocking_receiver = ?m1"
    by (simp add: handleRequest_def blocking_receiver_def open_receiver_value put_messages_def
        respond_def socket_send_def isBlocked_def queueEnvelope_def Let_def hello_world_def
        handleBlocked_def)
  have a: "awaits hello_envelope"
    by (simp add: awaits_def hello_envelope_def)
  have s2: "receiver_step hello_world RunNext ?m1 = ?m2"
    using a by simp
  have s3: "dispatched (core (receiver_step hello_world (Complete 1) ?m2)) =
      [MessageEvent alice 1000 (hello_message\<lparr>dm_flags := Some 0, dm_expireTimer := Some 0\<rparr>)]"
    by (simp add: run_handler_core handleEnvelope_hello dispatchEvent_def)
  have "exec [(hello_world, Deliver put_messages), (hello_world, RunNext),
              (hello_world, Complete 1)] blocking_receiver =
        receiver_step hello_world (Complete 1) ?m2"
    unfolding exec.simps receiver_step.simps(3) s1 s2 ..
  with b s1 s3 show ?thesis by simp
qed

section \<open>tryMessageAgain\<close>

lemma handleEndSession_dispatched: "dispatched (snd (handleEndSession w n r)) = dispatched r"
  by (simp add: handleEndSession_def split: sum.splits)

lemma processDecrypted_dispatched:
  "dispatched (snd (processDecrypted w decrypted source r)) = dispatched r"
  by (simp add: processDecrypted_def processDecrypted_promises_def Let_def split: option.splits)

text \<open>
  On the path of a fresh envelope, a data message that is processed is dispatched as a
  \<open>message\<close> event.
\<close>

lemma handleDataMessage_dispatches:
  assumes "handleDataMessage w envelope message r = (None, r')"
  shows "\<exists>m. dispatched r' = dispatched r @ [MessageEvent (e_source envelope) (e_timestamp envelope) m]"
proof -
  obtain out r1 where
    s: "(if has_END_SESSION w (dm_flags message)
         then handleEndSession w (e_source envelope) r else (None, r)) = (out, r1)"
    by (cases "if has_END_SESSION w (dm_flags message)
               then handleEndSession w (e_source envelope) r else (None, r)")
  have r1: "dispatched r1 = dispatched r"
    using s handleEndSession_dispatched [of w "e_source envelope" r] by (auto split: if_splits)
  obtain res r2 where p: "processDecrypted w message (Some (e_source envelope)) r1 = (res, r2)"
    by (cases "processDecrypted w message (Some (e_source envelope)) r1")
  have r2: "dispatched r2 = dispatched r"
    using processDecrypted_dispatched [of w message "Some (e_source envelope)" r1] p r1 by simp
  have out: "out = None"
    using assms s by (cases out) (simp_all add: handleDataMessage_def)
  obtain m where m: "res = Inr m"
    using assms s p out by (cases res) (simp_all add: handleDataMessage_def)
  have "r' = dispatchEvent (MessageEvent (e_source envelope) (e_timestamp envelope) m) r2"
    using assms s p out m by (simp add: handleDataMessage_def)
  with r2 show ?thesis by (simp add: dispatchEvent_def)
qed









section \<open>The queue of envelopes\<close>


























lemma handleRead_dispatched: "\<exists>evs. dispatched (handleRead rd ts r) = dispatched r @ evs"
proof (induction rd arbitrary: r)
  case Nil
  then show ?case by simp
next
  case (Cons x rd)
  obtain evs where "dispatched (handleRead rd ts (dispatchEvent (ReadEvent ts (r_timestamp x) (r_sender x)) r)) =
      dispatched (dispatchEvent (ReadEvent ts (r_timestamp x) (r_sender x)) r) @ evs"
    using Cons.IH by blast
  then show ?case by (simp add: dispatchEvent_def)
qed

lemma decrypt_dispatched: "\<exists>evs. dispatched (snd (decrypt w envelope c r)) = dispatched r @ evs"
  by (simp add: decrypt_def dispatchEvent_def Let_def split: sum.splits)

lemma handleDataMessage_dispatched:
  "\<exists>evs. dispatched (snd (handleDataMessage w envelope message r)) = dispatched r @ evs"
proof -
  obtain out r1 where
    s: "(if has_END_SESSION w (dm_flags message)
         then handleEndSession w (e_source envelope) r else (None, r)) = (out, r1)"
    by (cases "if has_END_SESSION w (dm_flags message)
               then handleEndSession w (e_source envelope) r else (None, r)")
  have r1: "dispatched r1 = dispatched r"
    using s handleEndSession_dispatched [of w "e_source envelope" r] by (auto split: if_splits)
  obtain res r2 where p: "processDecrypted w message (Some (e_source envelope)) r1 = (res, r2)"
    by (cases "processDecrypted w message (Some (e_source envelope)) r1")
  have r2: "dispatched r2 = dispatched r"
    using processDecrypted_dispatched [of w message "Some (e_source envelope)" r1] p r1 by simp
  show ?thesis
    unfolding handleDataMessage_def s using r1 r2 p
    by (cases out; cases res) (simp_all add: dispatchEvent_def)
qed

lemma handleSentMessage_dispatched:
  "\<exists>evs. dispatched (snd (handleSentMessage w dest ts message ex r)) = dispatched r @ evs"
proof (cases message)
  case None
  then show ?thesis by (simp add: handleSentMessage_def)
next
  case (Some msg)
  obtain out r1 where
    s: "(if has_END_SESSION w (dm_flags msg)
         then handleEndSession w dest r else (None, r)) = (out, r1)"
    by (cases "if has_END_SESSION w (dm_flags msg)
               then handleEndSession w dest r else (None, r)")
  have r1: "dispatched r1 = dispatched r"
    using s handleEndSession_dispatched [of w dest r] by (auto split: if_splits)
  obtain res r2 where p: "processDecrypted w msg (Some (number r1)) r1 = (res, r2)"
    by (cases "processDecrypted w msg (Some (number r1)) r1")
  have r2: "dispatched r2 = dispatched r"
    using processDecrypted_dispatched [of w msg "Some (number r1)" r1] p r1 by simp
  show ?thesis
    unfolding handleSentMessage_def Some option.case s using r1 r2 p
    by (cases out; cases res) (simp_all add: dispatchEvent_def)
qed

lemma handleSyncMessage_dispatched:
  "\<exists>evs. dispatched (snd (handleSyncMessage w envelope syncMessage r)) = dispatched r @ evs"
  using handleSentMessage_dispatched handleRead_dispatched
  by (simp add: handleSyncMessage_def handleBlocked_def split: option.splits)

text \<open>
  A handler only adds to the events dispatched, so the events that \<open>run_handler\<close>
  enters in the trace are those the handler dispatched.
\<close>

lemma handleEnvelope_dispatched:
  "\<exists>evs. dispatched (snd (handleEnvelope w envelope r)) = dispatched r @ evs"
proof -
  have after: "\<exists>evs. dispatched (snd (f r1)) = dispatched r @ evs"
    if "\<exists>evs. dispatched r1 = dispatched r @ evs" and "\<And>r'. \<exists>evs. dispatched (snd (f r')) = dispatched r' @ evs"
    for f :: "receiver \<Rightarrow> error option \<times> receiver" and r1
    using that by (metis append.assoc)
  have content: "\<exists>evs. dispatched (snd (handleContentMessage w envelope c r)) = dispatched r @ evs" for c
  proof (cases "decrypt w envelope c r")
    case (Pair res r1)
    have r1: "\<exists>evs. dispatched r1 = dispatched r @ evs"
      using decrypt_dispatched [of w envelope c r] Pair by simp
    show ?thesis
    proof (cases res)
      case (Inl e)
      with Pair r1 show ?thesis by (simp add: handleContentMessage_def)
    next
      case (Inr plaintext)
      show ?thesis
      proof (cases "decode_Content w plaintext")
        case (Inl e)
        with Pair Inr r1 show ?thesis by (simp add: handleContentMessage_def)
      next
        case cont: (Inr cont)
        show ?thesis
        proof (cases "c_syncMessage cont")
          case (Some syncMessage)
          have "\<exists>evs. dispatched (snd (handleSyncMessage w envelope syncMessage r1)) = dispatched r @ evs"
            using r1 handleSyncMessage_dispatched by (rule after)
          with Pair Inr cont Some show ?thesis by (simp add: handleContentMessage_def)
        next
          case None
          show ?thesis
          proof (cases "c_dataMessage cont")
            case (Some dataMessage)
            have "\<exists>evs. dispatched (snd (handleDataMessage w envelope dataMessage r1)) = dispatched r @ evs"
              using r1 handleDataMessage_dispatched by (rule after)
            with Pair Inr cont None Some show ?thesis by (simp add: handleContentMessage_def)
          next
            case n: None
            with Pair Inr cont None r1 show ?thesis by (simp add: handleContentMessage_def)
          qed
        qed
      qed
    qed
  qed
  have legacy: "\<exists>evs. dispatched (snd (handleLegacyMessage w envelope l r)) = dispatched r @ evs" for l
  proof (cases "decrypt w envelope l r")
    case (Pair res r1)
    have r1: "\<exists>evs. dispatched r1 = dispatched r @ evs"
      using decrypt_dispatched [of w envelope l r] Pair by simp
    show ?thesis
    proof (cases res)
      case (Inl e)
      with Pair r1 show ?thesis by (simp add: handleLegacyMessage_def)
    next
      case (Inr plaintext)
      show ?thesis
      proof (cases "decode_DataMessage w plaintext")
        case (Inl e)
        with Pair Inr r1 show ?thesis by (simp add: handleLegacyMessage_def)
      next
        case msg: (Inr message)
        have "\<exists>evs. dispatched (snd (handleDataMessage w envelope message r1)) = dispatched r @ evs"
          using r1 handleDataMessage_dispatched by (rule after)
        with Pair Inr msg show ?thesis by (simp add: handleLegacyMessage_def)
      qed
    qed
  qed
  show ?thesis
    using content legacy
    by (simp add: handleEnvelope_def onDeliveryReceipt_def dispatchEvent_def split: option.splits)
qed

text \<open>
  The handler of a receipt, and of an envelope with nothing in it, asks nothing of the
  collaborators.
\<close>

lemma handleEnvelope_without_world:
  "\<not> awaits envelope \<Longrightarrow> handleEnvelope w envelope r = handleEnvelope w' envelope r"
  by (auto simp: awaits_def handleEnvelope_def)




section \<open>The queue of envelopes, computed\<close>












end
